theory Spec2Isabelle
  imports Main "HOL-Library.Word"
begin

unbundle bit_operations_syntax

section \<open>Basic types of the engine\<close>

text \<open>
  The endgame module (endgame.cpp) works on the engine's scalar types: colours, piece
  types, squares, ranks, files, values and scale factors are C++ enums over \<open>int\<close>, and a
  bitboard is a 64-bit unsigned integer. Squares, ranks, files, values and scale factors
  are modelled as \<open>int\<close> (no value of the module comes near the limits of a 32-bit
  \<open>int\<close>); bitboards as \<open>64 word\<close>.
\<close>

datatype Color = WHITE | BLACK

datatype PieceType = PAWN | KNIGHT | BISHOP | ROOK | QUEEN | KING

type_synonym Square = int
type_synonym Rank = int
type_synonym File = int
type_synonym Bitboard = "64 word"

datatype error = AssertionFailed | OutOfRange | DivisionByZero

text \<open>\<open>/\<close> on C++ integers truncates towards zero; \<open>div\<close> on \<open>int\<close> rounds down.\<close>

definition tdiv :: "int \<Rightarrow> int \<Rightarrow> int" where
  "tdiv a b = sgn a * sgn b * (\<bar>a\<bar> div \<bar>b\<bar>)"

section \<open>Geometry tables\<close>

definition PushToEdges :: "int list" where
  "PushToEdges =
    [400, 360, 320, 280, 280, 320, 360, 400,
     360, 280, 240, 200, 200, 240, 280, 360,
     320, 240, 160, 120, 120, 160, 240, 320,
     280, 200, 120,  80,  80, 120, 200, 280,
     280, 200, 120,  80,  80, 120, 200, 280,
     320, 240, 160, 120, 120, 160, 240, 320,
     360, 280, 240, 200, 200, 240, 280, 360,
     400, 360, 320, 280, 280, 320, 360, 400]"

definition PushToCorners :: "int list" where
  "PushToCorners =
    [800, 700, 600, 500, 400, 300, 200, 100,
     700, 560, 460, 360, 260, 160,  60, 200,
     600, 460, 320, 220, 120,  20, 160, 300,
     500, 360, 220,  50, -50, 120, 260, 400,
     400, 260, 120, -50,  50, 220, 360, 500,
     300, 160,  20, 120, 220, 320, 460, 600,
     200,  60, 160, 260, 360, 460, 560, 700,
     100, 200, 300, 400, 500, 600, 700, 800]"

definition PushClose :: "int list" where
  "PushClose = [0, 0, 400, 320, 240, 160, 80, 40]"

definition PushAway :: "int list" where
  "PushAway = [0, 20, 80, 160, 240, 320, 360, 400]"

definition KRPPKRPScaleFactors :: "int list" where
  "KRPPKRPScaleFactors = [0, 9, 10, 14, 21, 44, 0, 0]"

section \<open>Square arithmetic of the engine's headers\<close>

text \<open>
  Modelled from the spec: the names of squares, files and ranks and the small arithmetic
  helpers of types.h and bitboard.h that the evaluators call; endgame.cpp includes these
  headers and does not define them. They have the meaning the specification gives them
  (file and rank extraction, relative rank and relative square for a colour,
  same-colour-square test, Chebyshev, file and rank distance, forward-direction
  bitboards). A square is \<open>8 * rank + file\<close>, \<open>SQ_A1 = 0\<close>, \<open>SQ_H8 = 63\<close>: the
  comment "Mirror SQ_H1 -> SQ_A1" on \<open>sq ^ 7\<close> in \<open>normalize\<close> fixes the file as the
  three low bits.
\<close>

definition SQ_A1 :: Square where "SQ_A1 = 0"
definition SQ_H5 :: Square where "SQ_H5 = 39"
definition SQ_B6 :: Square where "SQ_B6 = 41"
definition SQ_A7 :: Square where "SQ_A7 = 48"
definition SQ_B7 :: Square where "SQ_B7 = 49"
definition SQ_G7 :: Square where "SQ_G7 = 54"
definition SQ_H7 :: Square where "SQ_H7 = 55"
definition SQ_A8 :: Square where "SQ_A8 = 56"
definition SQ_C7 :: Square where "SQ_C7 = 50"
definition SQ_C8 :: Square where "SQ_C8 = 58"
definition SQ_NONE :: Square where "SQ_NONE = 64"

definition DELTA_N :: Square where "DELTA_N = 8"
definition DELTA_S :: Square where "DELTA_S = - 8"

definition FILE_A :: File where "FILE_A = 0"
definition FILE_B :: File where "FILE_B = 1"
definition FILE_D :: File where "FILE_D = 3"
definition FILE_E :: File where "FILE_E = 4"
definition FILE_G :: File where "FILE_G = 6"
definition FILE_H :: File where "FILE_H = 7"

definition RANK_1 :: Rank where "RANK_1 = 0"
definition RANK_2 :: Rank where "RANK_2 = 1"
definition RANK_3 :: Rank where "RANK_3 = 2"
definition RANK_4 :: Rank where "RANK_4 = 3"
definition RANK_5 :: Rank where "RANK_5 = 4"
definition RANK_6 :: Rank where "RANK_6 = 5"
definition RANK_7 :: Rank where "RANK_7 = 6"
definition RANK_8 :: Rank where "RANK_8 = 7"

definition VALUE_ZERO :: int where "VALUE_ZERO = 0"

text \<open>Modelled from the spec: a square index is well-formed when it lies on the board.\<close>

definition is_ok :: "Square \<Rightarrow> bool" where
  "is_ok s = (0 \<le> s \<and> s \<le> 63)"

text \<open>Modelled from the spec: \<open>~c\<close> on a colour, the other colour.\<close>

fun flip_color :: "Color \<Rightarrow> Color" where
  "flip_color WHITE = BLACK"
| "flip_color BLACK = WHITE"

text \<open>A colour as the array index and integer it is in C++ (\<open>WHITE = 0\<close>, \<open>BLACK = 1\<close>).\<close>

fun color_int :: "Color \<Rightarrow> int" where
  "color_int WHITE = 0"
| "color_int BLACK = 1"

text \<open>Modelled from the spec: file and rank extraction of a square.\<close>

definition file_of :: "Square \<Rightarrow> File" where
  "file_of s = s AND 7"

definition rank_of :: "Square \<Rightarrow> Rank" where
  "rank_of s = drop_bit 3 s"

definition make_square :: "File \<Rightarrow> Rank \<Rightarrow> Square" where
  "make_square f r = push_bit 3 r OR f"

text \<open>
  Modelled from the spec: the colour flip of a square, \<open>~sq\<close>. It exchanges rank 1 with
  rank 8 and keeps the file (\<open>sq ^ SQ_A8\<close>), so that after \<open>normalize\<close> the strong side
  plays up the board and its pawn stays on the left half, as the comment of \<open>normalize\<close>
  requires.
\<close>

definition flip_sq :: "Square \<Rightarrow> Square" where
  "flip_sq s = s XOR SQ_A8"

text \<open>File mirroring, \<open>sq ^ 7\<close>, written in \<open>normalize\<close> itself.\<close>

definition mirror_sq :: "Square \<Rightarrow> Square" where
  "mirror_sq s = s XOR 7"

text \<open>Modelled from the spec: relative-square and relative-rank transforms for a colour.\<close>

definition relative_square :: "Color \<Rightarrow> Square \<Rightarrow> Square" where
  "relative_square c s = s XOR (color_int c * 56)"

definition relative_rank_r :: "Color \<Rightarrow> Rank \<Rightarrow> Rank" where
  "relative_rank_r c r = r XOR (color_int c * 7)"

definition relative_rank :: "Color \<Rightarrow> Square \<Rightarrow> Rank" where
  "relative_rank c s = relative_rank_r c (rank_of s)"

definition pawn_push :: "Color \<Rightarrow> Square" where
  "pawn_push c = (if c = WHITE then DELTA_N else DELTA_S)"

text \<open>
  Modelled from the spec: the same-colour-square test. Two squares have opposite colours
  when the parities of \<open>file + rank\<close> differ.
\<close>

definition opposite_colors :: "Square \<Rightarrow> Square \<Rightarrow> bool" where
  "opposite_colors s1 s2 = (let s = s1 XOR s2 in (drop_bit 3 s XOR s) AND 1 \<noteq> 0)"

text \<open>
  Modelled from the spec: distance of two files or ranks (\<open>distance<File>\<close>,
  \<open>distance<Rank>\<close>, \<open>distance(r1, r2)\<close>) and Chebyshev distance of two squares
  (\<open>distance(s1, s2)\<close>, a table lookup in the engine).
\<close>

definition distance_i :: "int \<Rightarrow> int \<Rightarrow> int" where
  "distance_i x y = (if x < y then y - x else x - y)"

definition distance_File :: "Square \<Rightarrow> Square \<Rightarrow> int" where
  "distance_File x y = distance_i (file_of x) (file_of y)"

definition distance_Rank :: "Square \<Rightarrow> Square \<Rightarrow> int" where
  "distance_Rank x y = distance_i (rank_of x) (rank_of y)"

definition distance :: "Square \<Rightarrow> Square \<Rightarrow> int" where
  "distance x y = max (distance_File x y) (distance_Rank x y)"

section \<open>Bitboards\<close>

text \<open>
  Modelled from the spec: the bitboard primitives of bitboard.h. Bit \<open>s\<close> of a bitboard
  stands for square \<open>s\<close>.
\<close>

definition DarkSquares :: Bitboard where "DarkSquares = 0xAA55AA55AA55AA55"
definition FileABB :: Bitboard where "FileABB = 0x0101010101010101"
definition FileCBB :: Bitboard where "FileCBB = push_bit 2 FileABB"
definition FileFBB :: Bitboard where "FileFBB = push_bit 5 FileABB"
definition FileHBB :: Bitboard where "FileHBB = push_bit 7 FileABB"
definition Rank1BB :: Bitboard where "Rank1BB = 0xFF"

definition square_bb :: "Square \<Rightarrow> Bitboard" where
  "square_bb s = push_bit (nat s) 1"

definition file_bb :: "File \<Rightarrow> Bitboard" where
  "file_bb f = push_bit (nat f) FileABB"

definition rank_bb :: "Rank \<Rightarrow> Bitboard" where
  "rank_bb r = push_bit (8 * nat r) Rank1BB"

text \<open>\<open>b & s\<close> for a bitboard and a square: is the square in the set.\<close>

definition bb_has :: "Bitboard \<Rightarrow> Square \<Rightarrow> bool" where
  "bb_has b s = (b AND square_bb s \<noteq> 0)"

definition more_than_one :: "Bitboard \<Rightarrow> bool" where
  "more_than_one b = (b AND (b - 1) \<noteq> 0)"

text \<open>
  \<open>lsb\<close> and \<open>msb\<close>: the least and the most significant square of a non-empty
  bitboard (the engine's result on an empty one is undefined; \<open>SQ_NONE\<close> here).
\<close>

definition lsb :: "Bitboard \<Rightarrow> Square" where
  "lsb b = (case filter (bit b) [0..<64] of [] \<Rightarrow> SQ_NONE | n # _ \<Rightarrow> int n)"

definition msb :: "Bitboard \<Rightarrow> Square" where
  "msb b = (case filter (bit b) (rev [0..<64]) of [] \<Rightarrow> SQ_NONE | n # _ \<Rightarrow> int n)"

definition backmost_sq :: "Color \<Rightarrow> Bitboard \<Rightarrow> Square" where
  "backmost_sq c b = (if c = WHITE then lsb b else msb b)"

text \<open>
  \<open>in_front_bb(c, r)\<close>: the squares on the ranks in front of rank \<open>r\<close>, seen from
  colour \<open>c\<close>; \<open>forward_bb(c, s)\<close>: those of them on the file of \<open>s\<close>.
\<close>

definition in_front_bb :: "Color \<Rightarrow> Rank \<Rightarrow> Bitboard" where
  "in_front_bb c r = (if c = WHITE then push_bit (8 * (nat r + 1)) (- 1) else mask (8 * nat r))"

definition forward_bb :: "Color \<Rightarrow> Square \<Rightarrow> Bitboard" where
  "forward_bb c s = in_front_bb c (rank_of s) AND file_bb (file_of s)"

text \<open>\<open>FortressMask[Color]\<close> used by KQ vs KR and one or more pawns.\<close>

definition FortressMask :: "Color \<Rightarrow> Bitboard" where
  "FortressMask c = (if c = WHITE then 0x00007E4242C37E00 else 0x007EC342427E0000)"

section \<open>The engine and the position, as the evaluators see them\<close>

text \<open>
  The values and scale factors of types.h, the attack tables of bitboard.cpp, the
  bitbase of bitbase.cpp and the material key of a position are defined outside
  endgame.cpp: they are parameters of the model, collected in one record. No value is
  assumed for any of them; a theorem that needs a property of a constant states it as a
  hypothesis.
\<close>

record Engine =
  VALUE_DRAW :: int
  VALUE_KNOWN_WIN :: int
  PawnValueEg :: int
  RookValueEg :: int
  QueenValueEg :: int
  KnightValueMg :: int
  BishopValueMg :: int
  RookValueMg :: int
  QueenValueMg :: int
  SCALE_FACTOR_DRAW :: int
  SCALE_FACTOR_NORMAL :: int
  SCALE_FACTOR_MAX :: int
  SCALE_FACTOR_NONE :: int
  StepAttacks_KING :: "Square \<Rightarrow> Bitboard"
  StepAttacks_PAWN :: "Color \<Rightarrow> Square \<Rightarrow> Bitboard"
  PseudoAttacks_BISHOP :: "Square \<Rightarrow> Bitboard"
  Bitbases_probe :: "Square \<Rightarrow> Square \<Rightarrow> Square \<Rightarrow> Color \<Rightarrow> bool"
  fen_material_key :: "string \<Rightarrow> 64 word"

text \<open>
  Modelled from the spec: the position (position.h), as far as an evaluator reads it.
  It holds the piece lists (per colour and piece type, in the order of
  \<open>pos.squares<Pt>(c)\<close>), the side to move, the fifty-move counter, the non-pawn
  material of each side, the checkers, the number of legal moves
  (\<open>MoveList<LEGAL>(pos).size()\<close>), and two queries that depend on the whole board:
  \<open>pos.pawn_passed(c, s)\<close> and \<open>pos.attacks_from<BISHOP>(s)\<close>. The counts, the squares
  and the bitboards of the pieces are read off the piece lists.
\<close>

record Position =
  pieceList :: "Color \<Rightarrow> PieceType \<Rightarrow> Square list"
  sideToMove :: Color
  rule50 :: int
  nonPawnMaterial :: "Color \<Rightarrow> int"
  checkersBB :: Bitboard
  legalMoves :: nat
  pawnPassed :: "Color \<Rightarrow> Square \<Rightarrow> bool"
  attacksFrom_BISHOP :: "Square \<Rightarrow> Bitboard"

definition count :: "Position \<Rightarrow> PieceType \<Rightarrow> Color \<Rightarrow> int" where
  "count pos pt c = int (length (pieceList pos c pt))"

text \<open>
  Modelled from the spec: \<open>pos.square<Pt>(c)\<close> is the first entry of the piece list and
  \<open>pos.squares<Pt>(c)[i]\<close> its entry \<open>i\<close>; the list ends with \<open>SQ_NONE\<close>.
\<close>

definition squares :: "Position \<Rightarrow> PieceType \<Rightarrow> Color \<Rightarrow> nat \<Rightarrow> Square" where
  "squares pos pt c i =
     (if i < length (pieceList pos c pt) then pieceList pos c pt ! i else SQ_NONE)"

definition square :: "Position \<Rightarrow> PieceType \<Rightarrow> Color \<Rightarrow> Square" where
  "square pos pt c = squares pos pt c 0"

definition bb_of :: "Square list \<Rightarrow> Bitboard" where
  "bb_of xs = foldr (\<lambda>s b. square_bb s OR b) xs 0"

definition pieces_cp :: "Position \<Rightarrow> Color \<Rightarrow> PieceType \<Rightarrow> Bitboard" where
  "pieces_cp pos c pt = bb_of (pieceList pos c pt)"

definition pieces_p :: "Position \<Rightarrow> PieceType \<Rightarrow> Bitboard" where
  "pieces_p pos pt = pieces_cp pos WHITE pt OR pieces_cp pos BLACK pt"

definition pieces_c :: "Position \<Rightarrow> Color \<Rightarrow> Bitboard" where
  "pieces_c pos c =
     bb_of (concat (map (pieceList pos c) [PAWN, KNIGHT, BISHOP, ROOK, QUEEN, KING]))"

definition non_pawn_material :: "Position \<Rightarrow> Color \<Rightarrow> int" where
  "non_pawn_material pos c = nonPawnMaterial pos c"

definition side_to_move :: "Position \<Rightarrow> Color" where
  "side_to_move pos = sideToMove pos"

definition rule50_count :: "Position \<Rightarrow> int" where
  "rule50_count pos = rule50 pos"

definition verify_material :: "Position \<Rightarrow> Color \<Rightarrow> int \<Rightarrow> int \<Rightarrow> bool" where
  "verify_material pos c npm pawnsCnt =
     (non_pawn_material pos c = npm \<and> count pos PAWN c = pawnsCnt)"

text \<open>
  A position is well-formed when every square of its piece lists lies on the board and
  each side has exactly one king.
\<close>

definition pos_ok :: "Position \<Rightarrow> bool" where
  "pos_ok pos =
     list_all (\<lambda>c. length (pieceList pos c KING) = 1
                   \<and> list_all (\<lambda>pt. list_all is_ok (pieceList pos c pt))
                        [PAWN, KNIGHT, BISHOP, ROOK, QUEEN, KING]) [WHITE, BLACK]"

section \<open>Assertions\<close>

text \<open>
  The model is the debug build: a failing \<open>assert\<close> ends the run, which is the result
  \<open>Inl AssertionFailed\<close>; an uncaught C++ exception ends it too (\<open>Inl OutOfRange\<close> for
  \<open>std::out_of_range\<close>), and so does an integer division by zero, which traps
  (\<open>Inl DivisionByZero\<close>). \<open>bind_r\<close> passes a failure on.
\<close>

definition bind_r :: "error + 'a \<Rightarrow> ('a \<Rightarrow> error + 'b) \<Rightarrow> error + 'b" where
  "bind_r m f = (case m of Inl err \<Rightarrow> Inl err | Inr x \<Rightarrow> f x)"

section \<open>The square normalizer\<close>

text \<open>
  \<open>normalize\<close> maps the square as if the strong side were white and its only pawn on the
  left half of the board. \<open>normalize_sq\<close> is the body after the assertion.
\<close>

definition normalize_sq :: "Position \<Rightarrow> Color \<Rightarrow> Square \<Rightarrow> Square" where
  "normalize_sq pos strongSide sq =
     (let sq1 = (if file_of (square pos PAWN strongSide) \<ge> FILE_E then mirror_sq sq else sq);
          sq2 = (if strongSide = BLACK then flip_sq sq1 else sq1)
      in sq2)"

definition normalize :: "Position \<Rightarrow> Color \<Rightarrow> Square \<Rightarrow> error + Square" where
  "normalize pos strongSide sq =
     (if \<not> (count pos PAWN strongSide = 1) then Inl AssertionFailed
      else Inr (normalize_sq pos strongSide sq))"

section \<open>The material key of an endgame code\<close>

text \<open>
  \<open>std::string::find(ch, pos)\<close>: the first index from \<open>pos\<close> on that holds \<open>ch\<close>, or
  \<open>npos\<close> (here \<open>None\<close>). \<open>substr(pos)\<close> throws \<open>std::out_of_range\<close> when \<open>pos\<close> is
  beyond the length, as \<open>npos\<close> is; \<open>substr(0, n)\<close> with \<open>n = npos\<close> is the whole string.
\<close>

definition find_from :: "char \<Rightarrow> nat \<Rightarrow> string \<Rightarrow> nat option" where
  "find_from ch pos str =
     (case filter (\<lambda>i. str ! i = ch) [pos..<length str] of [] \<Rightarrow> None | i # _ \<Rightarrow> Some i)"

definition substr_from :: "string \<Rightarrow> nat option \<Rightarrow> error + string" where
  "substr_from str pos =
     (case pos of None \<Rightarrow> Inl OutOfRange
      | Some p \<Rightarrow> if p > length str then Inl OutOfRange else Inr (drop p str))"

definition substr_upto :: "string \<Rightarrow> nat option \<Rightarrow> string" where
  "substr_upto str n = (case n of None \<Rightarrow> str | Some k \<Rightarrow> take k str)"

definition tolower_c :: "char \<Rightarrow> char" where
  "tolower_c ch =
     (let n = (of_char ch :: nat) in if 65 \<le> n \<and> n \<le> 90 then char_of (n + 32) else ch)"

text \<open>\<open>char(8 - side.length() + '0')\<close>: the count of empty squares of the rank.\<close>

definition empty_count_char :: "string \<Rightarrow> char" where
  "empty_count_char side = char_of (8 - int (length side) + 48)"

text \<open>The forged FEN string, or the failure that ends the run before it is built.\<close>

definition key_fen :: "string \<Rightarrow> Color \<Rightarrow> error + string" where
  "key_fen code c =
     (if \<not> (length code > 0 \<and> length code < 8) then Inl AssertionFailed
      else if \<not> (code ! 0 = CHR ''K'') then Inl AssertionFailed
      else bind_r (substr_from code (find_from (CHR ''K'') 1 code)) (\<lambda>weak.
        let strong = substr_upto code (find_from (CHR ''K'') 1 code);
            sides0 = (if c = WHITE then map tolower_c weak else weak);
            sides1 = (if c = BLACK then map tolower_c strong else strong)
        in Inr (sides0 @ [empty_count_char sides0] @ ''/8/8/8/8/8/8/''
                @ sides1 @ [empty_count_char sides1] @ '' w - - 0 10'')))"

definition key :: "Engine \<Rightarrow> string \<Rightarrow> Color \<Rightarrow> error + 64 word" where
  "key e code c = bind_r (key_fen code c) (\<lambda>fen. Inr (fen_material_key e fen))"

section \<open>The registry\<close>

datatype EndgameType =
  KNNK | KXK | KPK | KRKP | KQKP
  | KBPsK | KQKRPs | KRPKR | KRPKB | KRPPKRP | KPsK | KBPKB | KBPPKB | KBPKN | KNPK | KNPKB

text \<open>
  \<open>Endgames\<close> holds two maps from material keys to evaluators, one for the evaluators
  that return a value and one for those that return a scale factor; an evaluator is
  its type and its strong side.
\<close>

record Endgames =
  value_map :: "64 word \<rightharpoonup> EndgameType \<times> Color"
  scale_map :: "64 word \<rightharpoonup> EndgameType \<times> Color"

definition returns_value :: "EndgameType \<Rightarrow> bool" where
  "returns_value E = (E \<in> {KNNK, KXK, KPK, KRKP, KQKP})"

definition map_insert :: "EndgameType \<Rightarrow> 64 word \<Rightarrow> Color \<Rightarrow> Endgames \<Rightarrow> Endgames" where
  "map_insert E k c eg =
     (if returns_value E then eg\<lparr>value_map := (value_map eg)(k \<mapsto> (E, c))\<rparr>
      else eg\<lparr>scale_map := (scale_map eg)(k \<mapsto> (E, c))\<rparr>)"

definition add :: "Engine \<Rightarrow> EndgameType \<Rightarrow> string \<Rightarrow> Endgames \<Rightarrow> error + Endgames" where
  "add e E code eg =
     bind_r (key e code WHITE) (\<lambda>kw.
       bind_r (key e code BLACK) (\<lambda>kb.
         Inr (map_insert E kb BLACK (map_insert E kw WHITE eg))))"

definition registered :: "(EndgameType \<times> string) list" where
  "registered =
     [(KPK, ''KPK''), (KNNK, ''KNNK''), (KRKP, ''KRKP''), (KQKP, ''KQKP''),
      (KNPK, ''KNPK''), (KNPKB, ''KNPKB''), (KRPKR, ''KRPKR''), (KRPKB, ''KRPKB''),
      (KBPKB, ''KBPKB''), (KBPKN, ''KBPKN''), (KBPPKB, ''KBPPKB''), (KRPPKRP, ''KRPPKRP'')]"

fun add_all :: "Engine \<Rightarrow> (EndgameType \<times> string) list \<Rightarrow> Endgames \<Rightarrow> error + Endgames" where
  "add_all e [] eg = Inr eg"
| "add_all e ((E, code) # rest) eg = bind_r (add e E code eg) (add_all e rest)"

definition Endgames_init :: "Engine \<Rightarrow> error + Endgames" where
  "Endgames_init e = add_all e registered \<lparr>value_map = Map.empty, scale_map = Map.empty\<rparr>"

section \<open>Value evaluators\<close>

text \<open>
  An \<open>Endgame<E>\<close> object holds its strong side; the weak side is the other colour. Each
  evaluator is a function of the engine's constants, the strong side and the position.
\<close>

text \<open>
  Mate with KX vs K. The two draw tests of the evaluator are named: stalemate of the
  lone king, and two or more bishops of one square colour with nothing else.
\<close>

definition KXK_stalemate :: "Color \<Rightarrow> Position \<Rightarrow> bool" where
  "KXK_stalemate strongSide pos =
     (side_to_move pos = flip_color strongSide \<and> legalMoves pos = 0)"

definition KXK_bishops_draw :: "Color \<Rightarrow> Position \<Rightarrow> bool" where
  "KXK_bishops_draw strongSide pos =
     (count pos BISHOP strongSide > 1
      \<and> \<not> (pieces_cp pos strongSide BISHOP AND DarkSquares \<noteq> 0
           \<and> pieces_cp pos strongSide BISHOP AND NOT DarkSquares \<noteq> 0)
      \<and> count pos PAWN strongSide = 0
      \<and> count pos KNIGHT strongSide = 0
      \<and> count pos ROOK strongSide = 0
      \<and> count pos QUEEN strongSide = 0)"

text \<open>The sum the evaluator starts from, before the corner term.\<close>

definition KXK_base :: "Engine \<Rightarrow> Color \<Rightarrow> Position \<Rightarrow> int" where
  "KXK_base e strongSide pos =
     (let winnerKSq = square pos KING strongSide;
          loserKSq = square pos KING (flip_color strongSide)
      in VALUE_KNOWN_WIN e
         + tdiv (non_pawn_material pos strongSide) 10
         + PushToEdges ! nat loserKSq
         + PushClose ! nat (distance winnerKSq loserKSq))"

definition Endgame_KXK :: "Engine \<Rightarrow> Color \<Rightarrow> Position \<Rightarrow> error + int" where
  "Endgame_KXK e strongSide pos =
     (let weakSide = flip_color strongSide in
      if \<not> verify_material pos weakSide VALUE_ZERO 0 then Inl AssertionFailed
      else if \<not> (checkersBB pos = 0) then Inl AssertionFailed
      else if KXK_stalemate strongSide pos then Inr (VALUE_DRAW e)
      else if KXK_bishops_draw strongSide pos then Inr (VALUE_DRAW e)
      else
        let winnerKSq = square pos KING strongSide;
            loserKSq = square pos KING weakSide;
            result = KXK_base e strongSide pos;
            result' =
              (if count pos BISHOP strongSide = 1 \<and> count pos KNIGHT strongSide = 1
               then
                 let bishopSq = square pos BISHOP strongSide;
                     (winnerKSq', loserKSq') =
                       (if opposite_colors bishopSq SQ_A1
                        then (flip_sq winnerKSq, flip_sq loserKSq)
                        else (winnerKSq, loserKSq))
                 in result + PushToCorners ! nat loserKSq'
               else result)
        in Inr (if strongSide = side_to_move pos then result' else - result'))"

text \<open>
  KP vs K, evaluated with the help of a bitbase. \<open>KPK_win_value\<close> is the value of a won
  position with the normalized pawn on rank \<open>r\<close>.
\<close>

definition KPK_win_value :: "Engine \<Rightarrow> Rank \<Rightarrow> int" where
  "KPK_win_value e r = VALUE_KNOWN_WIN e - tdiv (PawnValueEg e) 4 * (7 - r)"

definition Endgame_KPK :: "Engine \<Rightarrow> Color \<Rightarrow> Position \<Rightarrow> error + int" where
  "Endgame_KPK e strongSide pos =
     (let weakSide = flip_color strongSide in
      if \<not> verify_material pos strongSide VALUE_ZERO 1 then Inl AssertionFailed
      else if \<not> verify_material pos weakSide VALUE_ZERO 0 then Inl AssertionFailed
      else
        bind_r (normalize pos strongSide (square pos KING strongSide)) (\<lambda>wksq.
        bind_r (normalize pos strongSide (square pos KING weakSide)) (\<lambda>bksq.
        bind_r (normalize pos strongSide (square pos PAWN strongSide)) (\<lambda>psq.
          let us = (if strongSide = side_to_move pos then WHITE else BLACK) in
          if \<not> Bitbases_probe e wksq psq bksq us then Inr (VALUE_DRAW e)
          else
            let result = KPK_win_value e (rank_of psq)
            in Inr (if strongSide = side_to_move pos then result else - result)))))"


text \<open>KR vs KP.\<close>

definition Endgame_KRKP :: "Engine \<Rightarrow> Color \<Rightarrow> Position \<Rightarrow> error + int" where
  "Endgame_KRKP e strongSide pos =
     (let weakSide = flip_color strongSide in
      if \<not> verify_material pos strongSide (RookValueMg e) 0 then Inl AssertionFailed
      else if \<not> verify_material pos weakSide VALUE_ZERO 1 then Inl AssertionFailed
      else
        let wksq = relative_square strongSide (square pos KING strongSide);
            bksq = relative_square strongSide (square pos KING weakSide);
            rsq = relative_square strongSide (square pos ROOK strongSide);
            psq = relative_square strongSide (square pos PAWN weakSide);
            queeningSq = make_square (file_of psq) RANK_1;
            result =
              (if rank_of bksq \<ge> RANK_6 \<and> rank_of psq \<ge> RANK_6
                  \<and> side_to_move pos = strongSide
               then VALUE_KNOWN_WIN e + tdiv (RookValueEg e) 10 - PawnValueEg e
               else if wksq < psq
                  \<and> distance_File wksq psq \<le> 1
                  \<and> (rank_of psq \<ge> RANK_3 \<or> distance bksq psq \<ge> 2)
               then VALUE_KNOWN_WIN e + tdiv (RookValueEg e) 10 - PawnValueEg e
               else if distance bksq psq \<ge> 3 + (if side_to_move pos = weakSide then 1 else 0)
                  \<and> distance bksq rsq \<ge> 2
                  \<and> (rank_of psq \<noteq> RANK_2 \<or> distance wksq queeningSq \<le> 1)
               then VALUE_KNOWN_WIN e + tdiv (RookValueEg e) 10 - PawnValueEg e
               else if rank_of bksq \<le> RANK_3
                  \<and> distance bksq psq = 1
                  \<and> rank_of wksq \<ge> RANK_4
                  \<and> distance wksq psq > 2 + (if side_to_move pos = strongSide then 1 else 0)
               then 80 - 8 * distance wksq psq
               else 200 - 8 * (distance wksq (psq + DELTA_S)
                               - distance bksq (psq + DELTA_S)
                               - distance psq queeningSq))
        in Inr (if strongSide = side_to_move pos then result else - result))"

text \<open>
  KQ vs KP. The first term is divided by \<open>rule50 + 1\<close>; the counter is an \<open>int\<close>, and
  at the value -1 the division traps. Every other division of the module has a constant
  divisor (10, 4, 172).
\<close>

definition Endgame_KQKP :: "Engine \<Rightarrow> Color \<Rightarrow> Position \<Rightarrow> error + int" where
  "Endgame_KQKP e strongSide pos =
     (let weakSide = flip_color strongSide in
      if \<not> verify_material pos strongSide (QueenValueMg e) 0 then Inl AssertionFailed
      else if \<not> verify_material pos weakSide VALUE_ZERO 1 then Inl AssertionFailed
      else if rule50_count pos + 1 = 0 then Inl DivisionByZero
      else
        let winnerKSq = square pos KING strongSide;
            loserKSq = square pos KING weakSide;
            pawnSq = square pos PAWN weakSide;
            result = tdiv (PushClose ! nat (distance winnerKSq loserKSq)) (rule50_count pos + 1);
            result' =
              (if relative_rank weakSide pawnSq \<noteq> RANK_7
                  \<or> distance loserKSq pawnSq \<noteq> 1
                  \<or> \<not> bb_has (FileABB OR FileCBB OR FileFBB OR FileHBB) pawnSq
               then result + (VALUE_KNOWN_WIN e + tdiv (QueenValueEg e) 10 - PawnValueEg e)
               else result)
        in Inr (if strongSide = side_to_move pos then result' else - result'))"

text \<open>Some cases of trivial draws.\<close>

definition Endgame_KNNK :: "Engine \<Rightarrow> Color \<Rightarrow> Position \<Rightarrow> error + int" where
  "Endgame_KNNK e strongSide pos = Inr (VALUE_DRAW e)"

section \<open>Scale evaluators\<close>

text \<open>KB and one or more pawns vs K.\<close>

definition Endgame_KBPsK :: "Engine \<Rightarrow> Color \<Rightarrow> Position \<Rightarrow> error + int" where
  "Endgame_KBPsK e strongSide pos =
     (let weakSide = flip_color strongSide in
      if \<not> (non_pawn_material pos strongSide = BishopValueMg e) then Inl AssertionFailed
      else if \<not> (count pos PAWN strongSide \<ge> 1) then Inl AssertionFailed
      else
        let pawns = pieces_cp pos strongSide PAWN;
            pawnsFile = file_of (lsb pawns)
        in
        if (pawnsFile = FILE_A \<or> pawnsFile = FILE_H)
            \<and> pawns AND NOT (file_bb pawnsFile) = 0
            \<and> (let bishopSq = square pos BISHOP strongSide;
                    queeningSq = relative_square strongSide (make_square pawnsFile RANK_8);
                    kingSq = square pos KING weakSide
                in opposite_colors queeningSq bishopSq \<and> distance queeningSq kingSq \<le> 1)
        then Inr (SCALE_FACTOR_DRAW e)
        else
          bind_r
            (if count pos PAWN strongSide = 1
                \<and> \<not> more_than_one (pieces_c pos weakSide)
                \<and> (pawnsFile = FILE_B \<or> pawnsFile = FILE_G)
             then
               bind_r (normalize pos strongSide (square pos PAWN strongSide)) (\<lambda>pawnSq.
               bind_r (normalize pos strongSide (square pos KING weakSide)) (\<lambda>weakKingSq.
               bind_r (normalize pos strongSide (square pos BISHOP strongSide)) (\<lambda>bishopSq.
                 Inr (pawnSq = SQ_B6 \<and> bishopSq = SQ_A7
                      \<and> (weakKingSq = SQ_B7 \<or> weakKingSq = SQ_A8)))))
             else Inr False)
            (\<lambda>fortress.
              if fortress then Inr (SCALE_FACTOR_DRAW e)
              else if (pawnsFile = FILE_B \<or> pawnsFile = FILE_G)
                   \<and> pieces_p pos PAWN AND NOT (file_bb pawnsFile) = 0
                   \<and> non_pawn_material pos weakSide = 0
                   \<and> count pos PAWN weakSide \<ge> 1
                   \<and> (let weakPawnSq = backmost_sq weakSide (pieces_cp pos weakSide PAWN);
                           strongKingSq = square pos KING strongSide;
                           weakKingSq = square pos KING weakSide;
                           bishopSq = square pos BISHOP strongSide
                       in relative_rank strongSide weakPawnSq = RANK_7
                          \<and> bb_has (pieces_cp pos strongSide PAWN) (weakPawnSq + pawn_push weakSide)
                          \<and> (opposite_colors bishopSq weakPawnSq \<or> count pos PAWN strongSide = 1)
                          \<and> (let strongKingDist = distance weakPawnSq strongKingSq;
                                  weakKingDist = distance weakPawnSq weakKingSq
                              in relative_rank strongSide weakKingSq \<ge> RANK_7
                                 \<and> weakKingDist \<le> 2
                                 \<and> weakKingDist \<le> strongKingDist))
              then Inr (SCALE_FACTOR_DRAW e)
              else Inr (SCALE_FACTOR_NONE e)))"

text \<open>
  KQ vs KR and one or more pawns. The last expression is
  \<open>int(SCALE_FACTOR_NORMAL * double((101 - pos.rule50_count()) / 172))\<close>: the quotient is
  an integer division (both operands are \<open>int\<close>), taken before the conversion to
  \<open>double\<close>; the product of two integers is exact in \<open>double\<close> and the conversion
  back to \<open>int\<close> changes nothing, so the value is the integer product.
\<close>

definition KQKRPs_fortress :: "Engine \<Rightarrow> Color \<Rightarrow> Position \<Rightarrow> bool" where
  "KQKRPs_fortress e strongSide pos =
     (let weakSide = flip_color strongSide;
          strongKingSq = square pos KING strongSide;
          weakKingSq = square pos KING weakSide;
          rsq = square pos ROOK weakSide
      in pieces_cp pos weakSide PAWN AND FortressMask weakSide \<noteq> 0
         \<and> relative_rank weakSide strongKingSq > relative_rank weakSide rsq
         \<and> pieces_cp pos weakSide PAWN
             AND StepAttacks_KING e weakKingSq
             AND StepAttacks_PAWN e strongSide rsq \<noteq> 0)"

definition Endgame_KQKRPs :: "Engine \<Rightarrow> Color \<Rightarrow> Position \<Rightarrow> error + int" where
  "Endgame_KQKRPs e strongSide pos =
     (let weakSide = flip_color strongSide in
      if \<not> verify_material pos strongSide (QueenValueMg e) 0 then Inl AssertionFailed
      else if \<not> (count pos ROOK weakSide = 1) then Inl AssertionFailed
      else if \<not> (count pos PAWN weakSide \<ge> 1) then Inl AssertionFailed
      else if KQKRPs_fortress e strongSide pos then Inr (SCALE_FACTOR_DRAW e)
      else Inr (if rule50_count pos > 14
                then SCALE_FACTOR_NORMAL e * tdiv (101 - rule50_count pos) 172
                else SCALE_FACTOR_NONE e))"

text \<open>KRP vs KR.\<close>

definition Endgame_KRPKR :: "Engine \<Rightarrow> Color \<Rightarrow> Position \<Rightarrow> error + int" where
  "Endgame_KRPKR e strongSide pos =
     (let weakSide = flip_color strongSide in
      if \<not> verify_material pos strongSide (RookValueMg e) 1 then Inl AssertionFailed
      else if \<not> verify_material pos weakSide (RookValueMg e) 0 then Inl AssertionFailed
      else
        bind_r (normalize pos strongSide (square pos KING strongSide)) (\<lambda>wksq.
        bind_r (normalize pos strongSide (square pos KING weakSide)) (\<lambda>bksq.
        bind_r (normalize pos strongSide (square pos ROOK strongSide)) (\<lambda>wrsq.
        bind_r (normalize pos strongSide (square pos PAWN strongSide)) (\<lambda>wpsq.
        bind_r (normalize pos strongSide (square pos ROOK weakSide)) (\<lambda>brsq.
          let f = file_of wpsq;
              r = rank_of wpsq;
              queeningSq = make_square f RANK_8;
              tempo = (if side_to_move pos = strongSide then 1 else 0 :: int)
          in
          if r \<le> RANK_5
              \<and> distance bksq queeningSq \<le> 1
              \<and> wksq \<le> SQ_H5
              \<and> (rank_of brsq = RANK_6 \<or> (r \<le> RANK_3 \<and> rank_of wrsq \<noteq> RANK_6))
          then Inr (SCALE_FACTOR_DRAW e)
          else if r = RANK_6
              \<and> distance bksq queeningSq \<le> 1
              \<and> rank_of wksq + tempo \<le> RANK_6
              \<and> (rank_of brsq = RANK_1 \<or> (tempo = 0 \<and> distance_File brsq wpsq \<ge> 3))
          then Inr (SCALE_FACTOR_DRAW e)
          else if r \<ge> RANK_6
              \<and> bksq = queeningSq
              \<and> rank_of brsq = RANK_1
              \<and> (tempo = 0 \<or> distance wksq wpsq \<ge> 2)
          then Inr (SCALE_FACTOR_DRAW e)
          else if wpsq = SQ_A7
              \<and> wrsq = SQ_A8
              \<and> (bksq = SQ_H7 \<or> bksq = SQ_G7)
              \<and> file_of brsq = FILE_A
              \<and> (rank_of brsq \<le> RANK_3 \<or> file_of wksq \<ge> FILE_D \<or> rank_of wksq \<le> RANK_5)
          then Inr (SCALE_FACTOR_DRAW e)
          else if r \<le> RANK_5
              \<and> bksq = wpsq + DELTA_N
              \<and> distance wksq wpsq - tempo \<ge> 2
              \<and> distance wksq brsq - tempo \<ge> 2
          then Inr (SCALE_FACTOR_DRAW e)
          else if r = RANK_7
              \<and> f \<noteq> FILE_A
              \<and> file_of wrsq = f
              \<and> wrsq \<noteq> queeningSq
              \<and> distance wksq queeningSq < distance bksq queeningSq - 2 + tempo
              \<and> distance wksq queeningSq < distance bksq wrsq + tempo
          then Inr (SCALE_FACTOR_MAX e - 2 * distance wksq queeningSq)
          else if f \<noteq> FILE_A
              \<and> file_of wrsq = f
              \<and> wrsq < wpsq
              \<and> distance wksq queeningSq < distance bksq queeningSq - 2 + tempo
              \<and> distance wksq (wpsq + DELTA_N) < distance bksq (wpsq + DELTA_N) - 2 + tempo
              \<and> (distance bksq wrsq + tempo \<ge> 3
                  \<or> (distance wksq queeningSq < distance bksq wrsq + tempo
                      \<and> distance wksq (wpsq + DELTA_N) < distance bksq wrsq + tempo))
          then Inr (SCALE_FACTOR_MAX e
                    - 8 * distance wpsq queeningSq
                    - 2 * distance wksq queeningSq)
          else if r \<le> RANK_4 \<and> bksq > wpsq \<and> file_of bksq = file_of wpsq
          then Inr 10
          else if r \<le> RANK_4 \<and> bksq > wpsq
              \<and> distance_File bksq wpsq = 1
              \<and> distance wksq bksq > 2
          then Inr (24 - 2 * distance wksq bksq)
          else Inr (SCALE_FACTOR_NONE e)))))))"

text \<open>KRP vs KB.\<close>

definition Endgame_KRPKB :: "Engine \<Rightarrow> Color \<Rightarrow> Position \<Rightarrow> error + int" where
  "Endgame_KRPKB e strongSide pos =
     (let weakSide = flip_color strongSide in
      if \<not> verify_material pos strongSide (RookValueMg e) 1 then Inl AssertionFailed
      else if \<not> verify_material pos weakSide (BishopValueMg e) 0 then Inl AssertionFailed
      else
        let ksq = square pos KING weakSide;
            bsq = square pos BISHOP weakSide;
            psq = square pos PAWN strongSide;
            rk = relative_rank strongSide psq;
            push = pawn_push strongSide
        in
        if pieces_p pos PAWN AND (FileABB OR FileHBB) \<noteq> 0
            \<and> rk = RANK_5 \<and> \<not> opposite_colors bsq psq
        then
          let d = distance (psq + 3 * push) ksq in
          if d \<le> 2 \<and> \<not> (d = 0 \<and> ksq = square pos KING strongSide + 2 * push)
          then Inr 24
          else Inr 48
        else if pieces_p pos PAWN AND (FileABB OR FileHBB) \<noteq> 0
            \<and> rk = RANK_6
            \<and> distance (psq + 2 * push) ksq \<le> 1
            \<and> bb_has (PseudoAttacks_BISHOP e bsq) (psq + push)
            \<and> distance_File bsq psq \<ge> 2
        then Inr 8
        else Inr (SCALE_FACTOR_NONE e))"

text \<open>
  KRPP vs KRP. \<open>KRPPKRP_r\<close> is the rank \<open>r\<close> of the evaluator, the larger relative rank
  of the two strong pawns, and \<open>KRPPKRP_lookup\<close> says that the run reaches the branch
  that reads \<open>KRPPKRPScaleFactors[r]\<close>.
\<close>

definition KRPPKRP_r :: "Color \<Rightarrow> Position \<Rightarrow> Rank" where
  "KRPPKRP_r strongSide pos =
     (let wpsq1 = squares pos PAWN strongSide 0;
          wpsq2 = squares pos PAWN strongSide 1
      in max (relative_rank strongSide wpsq1) (relative_rank strongSide wpsq2))"

definition KRPPKRP_lookup :: "Color \<Rightarrow> Position \<Rightarrow> bool" where
  "KRPPKRP_lookup strongSide pos =
     (let weakSide = flip_color strongSide;
          wpsq1 = squares pos PAWN strongSide 0;
          wpsq2 = squares pos PAWN strongSide 1;
          bksq = square pos KING weakSide
      in \<not> (pawnPassed pos strongSide wpsq1 \<or> pawnPassed pos strongSide wpsq2)
         \<and> distance_File bksq wpsq1 \<le> 1
         \<and> distance_File bksq wpsq2 \<le> 1
         \<and> relative_rank strongSide bksq > KRPPKRP_r strongSide pos)"

definition Endgame_KRPPKRP :: "Engine \<Rightarrow> Color \<Rightarrow> Position \<Rightarrow> error + int" where
  "Endgame_KRPPKRP e strongSide pos =
     (let weakSide = flip_color strongSide in
      if \<not> verify_material pos strongSide (RookValueMg e) 2 then Inl AssertionFailed
      else if \<not> verify_material pos weakSide (RookValueMg e) 1 then Inl AssertionFailed
      else
        let wpsq1 = squares pos PAWN strongSide 0;
            wpsq2 = squares pos PAWN strongSide 1
        in
        if pawnPassed pos strongSide wpsq1 \<or> pawnPassed pos strongSide wpsq2
        then Inr (SCALE_FACTOR_NONE e)
        else
          let r = KRPPKRP_r strongSide pos in
          if KRPPKRP_lookup strongSide pos
          then (if \<not> (r > RANK_1 \<and> r < RANK_7) then Inl AssertionFailed
                else Inr (KRPPKRPScaleFactors ! nat r))
          else Inr (SCALE_FACTOR_NONE e))"

text \<open>K and two or more pawns vs K.\<close>

definition Endgame_KPsK :: "Engine \<Rightarrow> Color \<Rightarrow> Position \<Rightarrow> error + int" where
  "Endgame_KPsK e strongSide pos =
     (let weakSide = flip_color strongSide in
      if \<not> (non_pawn_material pos strongSide = VALUE_ZERO) then Inl AssertionFailed
      else if \<not> (count pos PAWN strongSide \<ge> 2) then Inl AssertionFailed
      else if \<not> verify_material pos weakSide VALUE_ZERO 0 then Inl AssertionFailed
      else
        let ksq = square pos KING weakSide;
            pawns = pieces_cp pos strongSide PAWN
        in
        if pawns AND NOT (in_front_bb weakSide (rank_of ksq)) = 0
            \<and> \<not> (pawns AND NOT FileABB \<noteq> 0 \<and> pawns AND NOT FileHBB \<noteq> 0)
            \<and> distance_File ksq (lsb pawns) \<le> 1
        then Inr (SCALE_FACTOR_DRAW e)
        else Inr (SCALE_FACTOR_NONE e))"

text \<open>KBP vs KB.\<close>

definition Endgame_KBPKB :: "Engine \<Rightarrow> Color \<Rightarrow> Position \<Rightarrow> error + int" where
  "Endgame_KBPKB e strongSide pos =
     (let weakSide = flip_color strongSide in
      if \<not> verify_material pos strongSide (BishopValueMg e) 1 then Inl AssertionFailed
      else if \<not> verify_material pos weakSide (BishopValueMg e) 0 then Inl AssertionFailed
      else
        let pawnSq = square pos PAWN strongSide;
            strongBishopSq = square pos BISHOP strongSide;
            weakBishopSq = square pos BISHOP weakSide;
            weakKingSq = square pos KING weakSide
        in
        if file_of weakKingSq = file_of pawnSq
            \<and> relative_rank strongSide pawnSq < relative_rank strongSide weakKingSq
            \<and> (opposite_colors weakKingSq strongBishopSq
                \<or> relative_rank strongSide weakKingSq \<le> RANK_6)
        then Inr (SCALE_FACTOR_DRAW e)
        else if opposite_colors strongBishopSq weakBishopSq
        then
          (if relative_rank strongSide pawnSq \<le> RANK_5 then Inr (SCALE_FACTOR_DRAW e)
           else
             let path = forward_bb strongSide pawnSq in
             if path AND pieces_cp pos weakSide KING \<noteq> 0 then Inr (SCALE_FACTOR_DRAW e)
             else if attacksFrom_BISHOP pos weakBishopSq AND path \<noteq> 0
                     \<and> distance weakBishopSq pawnSq \<ge> 3
             then Inr (SCALE_FACTOR_DRAW e)
             else Inr (SCALE_FACTOR_NONE e))
        else Inr (SCALE_FACTOR_NONE e))"

text \<open>KBPP vs KB.\<close>

definition Endgame_KBPPKB :: "Engine \<Rightarrow> Color \<Rightarrow> Position \<Rightarrow> error + int" where
  "Endgame_KBPPKB e strongSide pos =
     (let weakSide = flip_color strongSide in
      if \<not> verify_material pos strongSide (BishopValueMg e) 2 then Inl AssertionFailed
      else if \<not> verify_material pos weakSide (BishopValueMg e) 0 then Inl AssertionFailed
      else
        let wbsq = square pos BISHOP strongSide;
            bbsq = square pos BISHOP weakSide
        in
        if \<not> opposite_colors wbsq bbsq then Inr (SCALE_FACTOR_NONE e)
        else
          let ksq = square pos KING weakSide;
              psq1 = squares pos PAWN strongSide 0;
              psq2 = squares pos PAWN strongSide 1;
              r1 = rank_of psq1;
              r2 = rank_of psq2;
              (blockSq1, blockSq2) =
                (if relative_rank strongSide psq1 > relative_rank strongSide psq2
                 then (psq1 + pawn_push strongSide, make_square (file_of psq2) (rank_of psq1))
                 else (psq2 + pawn_push strongSide, make_square (file_of psq1) (rank_of psq2)))
          in
          if distance_File psq1 psq2 = 0 then
            (if file_of ksq = file_of blockSq1
                \<and> relative_rank strongSide ksq \<ge> relative_rank strongSide blockSq1
                \<and> opposite_colors ksq wbsq
             then Inr (SCALE_FACTOR_DRAW e)
             else Inr (SCALE_FACTOR_NONE e))
          else if distance_File psq1 psq2 = 1 then
            (if ksq = blockSq1
                \<and> opposite_colors ksq wbsq
                \<and> (bbsq = blockSq2
                    \<or> attacksFrom_BISHOP pos blockSq2 AND pieces_cp pos weakSide BISHOP \<noteq> 0
                    \<or> distance_i r1 r2 \<ge> 2)
             then Inr (SCALE_FACTOR_DRAW e)
             else if ksq = blockSq2
                \<and> opposite_colors ksq wbsq
                \<and> (bbsq = blockSq1
                    \<or> attacksFrom_BISHOP pos blockSq1 AND pieces_cp pos weakSide BISHOP \<noteq> 0)
             then Inr (SCALE_FACTOR_DRAW e)
             else Inr (SCALE_FACTOR_NONE e))
          else Inr (SCALE_FACTOR_NONE e))"

text \<open>KBP vs KN.\<close>

definition Endgame_KBPKN :: "Engine \<Rightarrow> Color \<Rightarrow> Position \<Rightarrow> error + int" where
  "Endgame_KBPKN e strongSide pos =
     (let weakSide = flip_color strongSide in
      if \<not> verify_material pos strongSide (BishopValueMg e) 1 then Inl AssertionFailed
      else if \<not> verify_material pos weakSide (KnightValueMg e) 0 then Inl AssertionFailed
      else
        let pawnSq = square pos PAWN strongSide;
            strongBishopSq = square pos BISHOP strongSide;
            weakKingSq = square pos KING weakSide
        in
        if file_of weakKingSq = file_of pawnSq
            \<and> relative_rank strongSide pawnSq < relative_rank strongSide weakKingSq
            \<and> (opposite_colors weakKingSq strongBishopSq
                \<or> relative_rank strongSide weakKingSq \<le> RANK_6)
        then Inr (SCALE_FACTOR_DRAW e)
        else Inr (SCALE_FACTOR_NONE e))"

text \<open>KNP vs K.\<close>

definition Endgame_KNPK :: "Engine \<Rightarrow> Color \<Rightarrow> Position \<Rightarrow> error + int" where
  "Endgame_KNPK e strongSide pos =
     (let weakSide = flip_color strongSide in
      if \<not> verify_material pos strongSide (KnightValueMg e) 1 then Inl AssertionFailed
      else if \<not> verify_material pos weakSide VALUE_ZERO 0 then Inl AssertionFailed
      else
        bind_r (normalize pos strongSide (square pos PAWN strongSide)) (\<lambda>pawnSq.
        bind_r (normalize pos strongSide (square pos KNIGHT strongSide)) (\<lambda>knightSq.
        bind_r (normalize pos strongSide (square pos KING strongSide)) (\<lambda>strongKingSq.
        bind_r (normalize pos strongSide (square pos KING weakSide)) (\<lambda>weakKingSq.
          if pawnSq = SQ_A7 \<and> (weakKingSq = SQ_A8 \<or> weakKingSq = SQ_B7)
          then Inr (SCALE_FACTOR_DRAW e)
          else if pawnSq = SQ_A7
              \<and> (weakKingSq = SQ_C8 \<or> weakKingSq = SQ_C7)
              \<and> strongKingSq = SQ_A8
              \<and> ((strongSide = side_to_move pos) = (\<not> opposite_colors weakKingSq knightSq))
          then Inr (SCALE_FACTOR_DRAW e)
          else Inr (SCALE_FACTOR_NONE e))))))"

text \<open>KNP vs KB. This evaluator asserts nothing.\<close>

definition Endgame_KNPKB :: "Engine \<Rightarrow> Color \<Rightarrow> Position \<Rightarrow> error + int" where
  "Endgame_KNPKB e strongSide pos =
     (let weakSide = flip_color strongSide;
          pawnSq = square pos PAWN strongSide;
          bishopSq = square pos BISHOP weakSide;
          weakKingSq = square pos KING weakSide
      in
      if forward_bb strongSide pawnSq AND attacksFrom_BISHOP pos bishopSq \<noteq> 0
      then Inr (distance weakKingSq pawnSq)
      else Inr (SCALE_FACTOR_NONE e))"

section \<open>Calling an evaluator by its type\<close>

fun Endgame_call :: "Engine \<Rightarrow> EndgameType \<Rightarrow> Color \<Rightarrow> Position \<Rightarrow> error + int" where
  "Endgame_call e KNNK = Endgame_KNNK e"
| "Endgame_call e KXK = Endgame_KXK e"
| "Endgame_call e KPK = Endgame_KPK e"
| "Endgame_call e KRKP = Endgame_KRKP e"
| "Endgame_call e KQKP = Endgame_KQKP e"
| "Endgame_call e KBPsK = Endgame_KBPsK e"
| "Endgame_call e KQKRPs = Endgame_KQKRPs e"
| "Endgame_call e KRPKR = Endgame_KRPKR e"
| "Endgame_call e KRPKB = Endgame_KRPKB e"
| "Endgame_call e KRPPKRP = Endgame_KRPPKRP e"
| "Endgame_call e KPsK = Endgame_KPsK e"
| "Endgame_call e KBPKB = Endgame_KBPKB e"
| "Endgame_call e KBPPKB = Endgame_KBPPKB e"
| "Endgame_call e KBPKN = Endgame_KBPKN e"
| "Endgame_call e KNPK = Endgame_KNPK e"
| "Endgame_call e KNPKB = Endgame_KNPKB e"

text \<open>
  The material precondition of an evaluator: what it asserts on entry about the material
  of the two sides.
\<close>

fun material_pre :: "Engine \<Rightarrow> EndgameType \<Rightarrow> Color \<Rightarrow> Position \<Rightarrow> bool" where
  "material_pre e KNNK s pos = True"
| "material_pre e KXK s pos = verify_material pos (flip_color s) VALUE_ZERO 0"
| "material_pre e KPK s pos =
     (verify_material pos s VALUE_ZERO 1 \<and> verify_material pos (flip_color s) VALUE_ZERO 0)"
| "material_pre e KRKP s pos =
     (verify_material pos s (RookValueMg e) 0 \<and> verify_material pos (flip_color s) VALUE_ZERO 1)"
| "material_pre e KQKP s pos =
     (verify_material pos s (QueenValueMg e) 0 \<and> verify_material pos (flip_color s) VALUE_ZERO 1)"
| "material_pre e KBPsK s pos =
     (non_pawn_material pos s = BishopValueMg e \<and> count pos PAWN s \<ge> 1)"
| "material_pre e KQKRPs s pos =
     (verify_material pos s (QueenValueMg e) 0
      \<and> count pos ROOK (flip_color s) = 1 \<and> count pos PAWN (flip_color s) \<ge> 1)"
| "material_pre e KRPKR s pos =
     (verify_material pos s (RookValueMg e) 1
      \<and> verify_material pos (flip_color s) (RookValueMg e) 0)"
| "material_pre e KRPKB s pos =
     (verify_material pos s (RookValueMg e) 1
      \<and> verify_material pos (flip_color s) (BishopValueMg e) 0)"
| "material_pre e KRPPKRP s pos =
     (verify_material pos s (RookValueMg e) 2
      \<and> verify_material pos (flip_color s) (RookValueMg e) 1)"
| "material_pre e KPsK s pos =
     (non_pawn_material pos s = VALUE_ZERO \<and> count pos PAWN s \<ge> 2
      \<and> verify_material pos (flip_color s) VALUE_ZERO 0)"
| "material_pre e KBPKB s pos =
     (verify_material pos s (BishopValueMg e) 1
      \<and> verify_material pos (flip_color s) (BishopValueMg e) 0)"
| "material_pre e KBPPKB s pos =
     (verify_material pos s (BishopValueMg e) 2
      \<and> verify_material pos (flip_color s) (BishopValueMg e) 0)"
| "material_pre e KBPKN s pos =
     (verify_material pos s (BishopValueMg e) 1
      \<and> verify_material pos (flip_color s) (KnightValueMg e) 0)"
| "material_pre e KNPK s pos =
     (verify_material pos s (KnightValueMg e) 1
      \<and> verify_material pos (flip_color s) VALUE_ZERO 0)"
| "material_pre e KNPKB s pos = True"

text \<open>
  Two facts of every legal position that the assertion inside the KRPP vs KRP evaluator
  relies on: the strong pawns stand on relative ranks 2 to 7, and a pawn on relative
  rank 7 is passed (no enemy pawn can stand ahead of it).
\<close>

definition pawns_legal :: "Color \<Rightarrow> Position \<Rightarrow> bool" where
  "pawns_legal strongSide pos =
     list_all (\<lambda>sq. RANK_2 \<le> relative_rank strongSide sq
                    \<and> relative_rank strongSide sq \<le> RANK_7
                    \<and> (relative_rank strongSide sq = RANK_7 \<longrightarrow> pawnPassed pos strongSide sq))
       (pieceList pos strongSide PAWN)"

text \<open>
  What the bounds of the scale factors need of the constants: the draw factor is not
  negative, and the factor for "no scaling" is the largest of all.
\<close>

definition scale_consts_ok :: "Engine \<Rightarrow> bool" where
  "scale_consts_ok e =
     (0 \<le> SCALE_FACTOR_DRAW e \<and> SCALE_FACTOR_DRAW e \<le> SCALE_FACTOR_NONE e
      \<and> 70 \<le> SCALE_FACTOR_MAX e \<and> SCALE_FACTOR_MAX e \<le> SCALE_FACTOR_NONE e
      \<and> 48 \<le> SCALE_FACTOR_NONE e)"

text \<open>A result is a scale factor in range: the run ended with a value from 0 to the maximum.\<close>

definition in_range :: "Engine \<Rightarrow> error + int \<Rightarrow> bool" where
  "in_range e r = (case r of Inl err \<Rightarrow> False
                   | Inr v \<Rightarrow> 0 \<le> v \<and> v \<le> SCALE_FACTOR_NONE e)"

section \<open>An instance of the engine and some positions\<close>

text \<open>
  An instance of the parameters, to run the model on concrete positions: the values of
  the constants are those usual in the engine, the attack tables are empty and the
  bitbase calls every position a win.
\<close>

definition example_engine :: Engine where
  "example_engine =
     \<lparr>VALUE_DRAW = 0, VALUE_KNOWN_WIN = 10000, PawnValueEg = 258,
      RookValueEg = 1278, QueenValueEg = 2558,
      KnightValueMg = 753, BishopValueMg = 826, RookValueMg = 1285, QueenValueMg = 2513,
      SCALE_FACTOR_DRAW = 0, SCALE_FACTOR_NORMAL = 64, SCALE_FACTOR_MAX = 128,
      SCALE_FACTOR_NONE = 255,
      StepAttacks_KING = (\<lambda>s. 0), StepAttacks_PAWN = (\<lambda>c s. 0),
      PseudoAttacks_BISHOP = (\<lambda>s. 0),
      Bitbases_probe = (\<lambda>wksq psq bksq us. True),
      fen_material_key = (\<lambda>fen. 0)\<rparr>"

text \<open>
  A position from the list of its pieces; nothing gives check, the side to move has
  \<open>n\<close> legal moves, no pawn is passed and the bishop attack sets are empty.
\<close>

definition pieces_at :: "(Color \<times> PieceType \<times> Square) list \<Rightarrow> Color \<Rightarrow> PieceType \<Rightarrow> Square list" where
  "pieces_at ps c pt = map (\<lambda>(c', pt', s). s) (filter (\<lambda>(c', pt', s). c' = c \<and> pt' = pt) ps)"

definition make_position ::
  "(Color \<times> PieceType \<times> Square) list \<Rightarrow> Color \<Rightarrow> int \<Rightarrow> (Color \<Rightarrow> int) \<Rightarrow> nat \<Rightarrow> Position" where
  "make_position ps stm r50 npm n =
     \<lparr>pieceList = pieces_at ps, sideToMove = stm, rule50 = r50, nonPawnMaterial = npm,
      checkersBB = 0, legalMoves = n, pawnPassed = (\<lambda>c s. False),
      attacksFrom_BISHOP = (\<lambda>s. 0)\<rparr>"

text \<open>
  King, two dark-squared bishops (c1, e3) against king; king, bishop and knight against
  king with the bishop on a dark square (c1) and on a light square (f1), the lone king
  on a8; king (e2) and pawn (e5) against king (e8); queen against rook and pawn (a5), for
  any value of the fifty-move counter; rook and pawns on e4, f4 against rook and pawn,
  the defending king on e6.
\<close>

definition pos_KBBK :: Position where
  "pos_KBBK =
     make_position [(WHITE, KING, 4), (WHITE, BISHOP, 2), (WHITE, BISHOP, 20), (BLACK, KING, 60)]
       WHITE 0 (\<lambda>c. if c = WHITE then 1652 else 0) 5"

definition pos_KBNK_dark :: Position where
  "pos_KBNK_dark =
     make_position [(WHITE, KING, 18), (WHITE, BISHOP, 2), (WHITE, KNIGHT, 1), (BLACK, KING, 56)]
       WHITE 0 (\<lambda>c. if c = WHITE then 1579 else 0) 5"

definition pos_KBNK_light :: Position where
  "pos_KBNK_light =
     make_position [(WHITE, KING, 18), (WHITE, BISHOP, 5), (WHITE, KNIGHT, 1), (BLACK, KING, 56)]
       WHITE 0 (\<lambda>c. if c = WHITE then 1579 else 0) 5"

definition pos_KPK :: Position where
  "pos_KPK =
     make_position [(WHITE, KING, 12), (WHITE, PAWN, 36), (BLACK, KING, 60)]
       WHITE 0 (\<lambda>c. 0) 5"

definition pos_KQKRPs :: "int \<Rightarrow> Position" where
  "pos_KQKRPs r50 =
     make_position [(WHITE, KING, 6), (WHITE, QUEEN, 3),
                    (BLACK, KING, 62), (BLACK, ROOK, 61), (BLACK, PAWN, 32)]
       WHITE r50 (\<lambda>c. if c = WHITE then 2513 else 1285) 5"

definition pos_KRPPKRP :: Position where
  "pos_KRPPKRP =
     make_position [(WHITE, KING, 11), (WHITE, ROOK, 0), (WHITE, PAWN, 28), (WHITE, PAWN, 29),
                    (BLACK, KING, 44), (BLACK, ROOK, 63), (BLACK, PAWN, 36)]
       WHITE 0 (\<lambda>c. 1285) 5"

section \<open>Facts about squares and distances\<close>

lemma tdiv_nonneg: "0 \<le> a \<Longrightarrow> 0 < b \<Longrightarrow> 0 \<le> tdiv a b"
  by (simp add: tdiv_def sgn_if pos_imp_zdiv_nonneg_iff)


lemma tdiv_small: "- 172 < a \<Longrightarrow> a < 172 \<Longrightarrow> tdiv a 172 = 0"
  by (simp add: tdiv_def div_pos_pos_trivial)

lemma file_of_range: "0 \<le> file_of s \<and> file_of s \<le> 7"
  unfolding file_of_def by (simp add: AND_upper2')

lemma rank_of_range: "is_ok s \<Longrightarrow> 0 \<le> rank_of s \<and> rank_of s \<le> 7"
  unfolding rank_of_def is_ok_def by (simp add: drop_bit_eq_div) presburger

lemma rank_of_range64: "0 \<le> x \<Longrightarrow> x \<le> 64 \<Longrightarrow> 0 \<le> rank_of x \<and> rank_of x \<le> 8"
  unfolding rank_of_def by (simp add: drop_bit_eq_div) presburger

lemma distance_i_range:
  "0 \<le> x \<Longrightarrow> x \<le> 7 \<Longrightarrow> 0 \<le> y \<Longrightarrow> y \<le> 7 \<Longrightarrow> 0 \<le> distance_i x y \<and> distance_i x y \<le> 7"
  unfolding distance_i_def by simp

lemma distance_File_range: "0 \<le> distance_File x y \<and> distance_File x y \<le> 7"
  unfolding distance_File_def using distance_i_range file_of_range by simp

lemma distance_Rank_range:
  "is_ok x \<Longrightarrow> is_ok y \<Longrightarrow> 0 \<le> distance_Rank x y \<and> distance_Rank x y \<le> 7"
  unfolding distance_Rank_def using distance_i_range rank_of_range by simp

lemma distance_range:
  "is_ok x \<Longrightarrow> is_ok y \<Longrightarrow> 0 \<le> distance x y \<and> distance x y \<le> 7"
  unfolding distance_def
  using distance_File_range [of x y] distance_Rank_range [of x y] by (auto simp: max_def)

text \<open>With \<open>SQ_NONE\<close> for a missing piece the distance is still at most 8.\<close>

lemma distance_range64:
  assumes "0 \<le> x" "x \<le> 64" "0 \<le> y" "y \<le> 64"
  shows "0 \<le> distance x y \<and> distance x y \<le> 8"
proof -
  have "0 \<le> distance_Rank x y \<and> distance_Rank x y \<le> 8"
    using rank_of_range64 [OF assms(1,2)] rank_of_range64 [OF assms(3,4)]
    by (simp add: distance_Rank_def distance_i_def)
  then show ?thesis
    using distance_File_range [of x y] by (auto simp: distance_def max_def)
qed

lemma is_ok_xor:
  assumes "is_ok s" "0 \<le> k" "k < 64"
  shows "is_ok (s XOR k)"
proof -
  have "s XOR k < 2 ^ 6" using assms by (intro XOR_upper) (simp_all add: is_ok_def)
  moreover have "0 \<le> s XOR k" using assms by (simp add: is_ok_def)
  ultimately show ?thesis by (simp add: is_ok_def)
qed

lemma mirror_ok: "is_ok s \<Longrightarrow> is_ok (mirror_sq s)"
  unfolding mirror_sq_def by (rule is_ok_xor) simp_all

lemma flip_ok: "is_ok s \<Longrightarrow> is_ok (flip_sq s)"
  unfolding flip_sq_def SQ_A8_def by (rule is_ok_xor) simp_all

lemma make_square_ok:
  assumes "0 \<le> f" "f \<le> 7"
  shows "is_ok (make_square f RANK_8)"
proof -
  have "(56::int) OR f < 2 ^ 6" using assms by (intro OR_upper) simp_all
  moreover have "0 \<le> (56::int) OR f" using assms by simp
  ultimately show ?thesis by (simp add: make_square_def RANK_8_def is_ok_def)
qed

lemma nat_lt_64: "is_ok s \<Longrightarrow> nat s < 64"
  unfolding is_ok_def by linarith

lemma all_below_64: "list_all P [0..<64] \<Longrightarrow> l < 64 \<Longrightarrow> P l"
  by (simp add: list_all_iff)

lemma flip_sq_file_rank:
  assumes "is_ok l"
  shows "file_of (flip_sq l) = file_of l \<and> rank_of (flip_sq l) = 7 - rank_of l"
proof -
  have "list_all (\<lambda>l. file_of (flip_sq (int l)) = file_of (int l)
          \<and> rank_of (flip_sq (int l)) = 7 - rank_of (int l)) [0..<64]"
    by code_simp
  from all_below_64 [OF this nat_lt_64 [OF assms]] assms
  show ?thesis by (simp add: is_ok_def)
qed

text \<open>A square is dark exactly when its colour is not opposite to that of a1.\<close>

lemma dark_iff:
  assumes "is_ok b"
  shows "bb_has DarkSquares b = (\<not> opposite_colors b SQ_A1)"
proof -
  have "list_all (\<lambda>l. bb_has DarkSquares (int l) = (\<not> opposite_colors (int l) SQ_A1)) [0..<64]"
    by code_simp
  from all_below_64 [OF this nat_lt_64 [OF assms]] assms
  show ?thesis by (simp add: is_ok_def)
qed

section \<open>Facts about bitboards\<close>

lemma and_single_bit: "(w AND push_bit n 1 = 0) = (\<not> bit w n)" for w :: "64 word"
proof
  assume h: "w AND push_bit n 1 = 0"
  show "\<not> bit w n"
  proof
    assume b: "bit w n"
    then have "n < 64" using bit_imp_le_length [of w n] by simp
    with b have "bit (w AND push_bit n 1) n" by (simp add: bit_simps)
    with h show False by simp
  qed
next
  assume "\<not> bit w n"
  then show "w AND push_bit n 1 = 0"
    by (intro bit_eqI) (auto simp: bit_simps)
qed

lemma bb_has_bit: "bb_has b s = bit b (nat s)"
  unfolding bb_has_def square_bb_def using and_single_bit [of b "nat s"] by blast

lemma square_bb_and_not: "bb_has D s \<Longrightarrow> square_bb s AND NOT D = 0"
  unfolding bb_has_bit square_bb_def
  by (intro bit_eqI) (auto simp: bit_simps)

lemma square_bb_and: "\<not> bb_has D s \<Longrightarrow> square_bb s AND D = 0"
  unfolding bb_has_def by (simp add: and.commute)

lemma bb_of_Nil: "bb_of [] = 0"
  by (simp add: bb_of_def)

lemma bb_of_Cons: "bb_of (s # xs) = square_bb s OR bb_of xs"
  by (simp add: bb_of_def)

lemma bb_of_all_in: "\<forall>s\<in>set xs. bb_has D s \<Longrightarrow> bb_of xs AND NOT D = 0"
  by (induction xs) (simp_all add: bb_of_Cons bb_of_Nil bit.conj_disj_distrib2 square_bb_and_not)

lemma bb_of_all_out: "\<forall>s\<in>set xs. \<not> bb_has D s \<Longrightarrow> bb_of xs AND D = 0"
  by (induction xs) (simp_all add: bb_of_Cons bb_of_Nil bit.conj_disj_distrib2 square_bb_and)

section \<open>Facts about the geometry tables\<close>

lemma PushToEdges_ge:
  assumes "is_ok l"
  shows "80 \<le> PushToEdges ! nat l"
proof -
  have "list_all (\<lambda>l. 80 \<le> PushToEdges ! l) [0..<64]" by code_simp
  from all_below_64 [OF this nat_lt_64 [OF assms]] show ?thesis .
qed

lemma PushToCorners_ge:
  assumes "is_ok l"
  shows "- 50 \<le> PushToCorners ! nat l"
proof -
  have "list_all (\<lambda>l. - 50 \<le> PushToCorners ! l) [0..<64]" by code_simp
  from all_below_64 [OF this nat_lt_64 [OF assms]] show ?thesis .
qed

lemma corner_sum:
  assumes "is_ok l"
  shows "30 \<le> PushToEdges ! nat l + PushToCorners ! nat l"
proof -
  have "list_all (\<lambda>l. 30 \<le> PushToEdges ! l + PushToCorners ! l) [0..<64]" by code_simp
  from all_below_64 [OF this nat_lt_64 [OF assms]] show ?thesis .
qed

lemma corner_sum_flip:
  assumes "is_ok l"
  shows "30 \<le> PushToEdges ! nat l + PushToCorners ! nat (flip_sq l)"
proof -
  have "list_all (\<lambda>l. 30 \<le> PushToEdges ! l + PushToCorners ! nat (flip_sq (int l))) [0..<64]"
    by code_simp
  from all_below_64 [OF this nat_lt_64 [OF assms]] assms
  show ?thesis by (simp add: is_ok_def)
qed

text \<open>
  The corner table is unchanged by the reflection through the centre of the board
  (\<open>sq\<close> to \<open>63 - sq\<close>), so the flip of the KBN vs K case is not that reflection: it is
  the flip that exchanges the ranks, which carries a1 to a8.
\<close>

lemma PushToCorners_point_symmetric:
  assumes "is_ok l"
  shows "PushToCorners ! nat (63 - l) = PushToCorners ! nat l"
proof -
  have "list_all (\<lambda>l. PushToCorners ! nat (63 - int l) = PushToCorners ! l) [0..<64]"
    by code_simp
  from all_below_64 [OF this nat_lt_64 [OF assms]] assms
  show ?thesis by (simp add: is_ok_def)
qed

lemma PushClose_ge: "0 \<le> d \<Longrightarrow> d \<le> 7 \<Longrightarrow> 0 \<le> PushClose ! nat d"
proof -
  assume d: "0 \<le> d" "d \<le> 7"
  have "list_all (\<lambda>l. l < 8 \<longrightarrow> 0 \<le> PushClose ! l) [0..<64]" by code_simp
  from all_below_64 [OF this, of "nat d"] d show ?thesis by simp
qed

section \<open>Facts about well-formed positions\<close>

lemma all_Color: "(\<forall>c. P c) = (P WHITE \<and> P BLACK)"
  by (metis Color.exhaust)

lemma all_PieceType:
  "(\<forall>pt. P pt) = (P PAWN \<and> P KNIGHT \<and> P BISHOP \<and> P ROOK \<and> P QUEEN \<and> P KING)"
  by (metis PieceType.exhaust)

lemma pos_ok_iff:
  "pos_ok pos = (\<forall>c. length (pieceList pos c KING) = 1
                    \<and> (\<forall>pt. \<forall>sq\<in>set (pieceList pos c pt). is_ok sq))"
  unfolding pos_ok_def all_Color all_PieceType by (simp add: list_all_iff)

lemma pos_ok_nth:
  assumes "pos_ok pos" and "i < length (pieceList pos c pt)"
  shows "is_ok (squares pos pt c i)"
proof -
  have "pieceList pos c pt ! i \<in> set (pieceList pos c pt)" using assms(2) by (rule nth_mem)
  moreover have "\<forall>sq\<in>set (pieceList pos c pt). is_ok sq"
    using assms(1) unfolding pos_ok_iff by blast
  ultimately show ?thesis using assms(2) by (simp add: squares_def)
qed

lemma pos_ok_king: "pos_ok pos \<Longrightarrow> is_ok (square pos KING c)"
  unfolding square_def using pos_ok_nth [of pos 0 c KING] by (simp add: pos_ok_iff)

lemma pos_ok_square: "pos_ok pos \<Longrightarrow> count pos pt c \<ge> 1 \<Longrightarrow> is_ok (square pos pt c)"
  unfolding square_def using pos_ok_nth [of pos 0 c pt]
  by (cases "pieceList pos c pt") (simp_all add: count_def)

lemma squares_range:
  assumes "pos_ok pos"
  shows "0 \<le> squares pos pt c i \<and> squares pos pt c i \<le> 64"
proof (cases "i < length (pieceList pos c pt)")
  case True
  then show ?thesis using pos_ok_nth [OF assms True] by (simp add: is_ok_def)
next
  case False
  then show ?thesis by (simp add: squares_def SQ_NONE_def)
qed

lemma bind_r_Inr [simp]: "bind_r (Inr x) f = f x"
  by (simp add: bind_r_def)

lemma bind_r_if: "bind_r (if c then a else b) f = (if c then bind_r a f else bind_r b f)"
  by simp

section \<open>The PushClose table\<close>

lemma upto7_cases:
  "(d::nat) \<le> 7 \<Longrightarrow> d = 0 \<or> d = 1 \<or> d = 2 \<or> d = 3 \<or> d = 4 \<or> d = 5 \<or> d = 6 \<or> d = 7"
  by arith

lemma PushClose_nth:
  "PushClose ! 0 = 0" "PushClose ! 1 = 0" "PushClose ! 2 = 400" "PushClose ! 3 = 320"
  "PushClose ! 4 = 240" "PushClose ! 5 = 160" "PushClose ! 6 = 80" "PushClose ! 7 = 40"
  "PushClose ! Suc 0 = 0"
  by (simp_all add: PushClose_def)

text \<open>
  Claim C7, as stated: for all distances \<open>d1 < d2\<close> in \<open>0..7\<close>,
  \<open>PushClose[d1] \<ge> PushClose[d2]\<close>. It fails at \<open>d1 = 0\<close>, \<open>d2 = 2\<close>: the entries for
  the distances 0 and 1 are 0, the entry for distance 2 is 400.
\<close>

theorem PushClose_not_monotone:
  "(0::nat) < 2 \<and> (2::nat) \<le> 7 \<and> \<not> (PushClose ! 2 \<le> PushClose ! 0)"
  by (simp add: PushClose_nth)

text \<open>
  Claim C7, amended: for distances \<open>d1 < d2 \<le> 7\<close>, \<open>PushClose[d1] \<ge> PushClose[d2]\<close>
  holds exactly when \<open>d1 \<ge> 2\<close> or \<open>d2 \<le> 1\<close>; from distance 2 on the table is strictly
  decreasing, and the two entries below (distances that two kings never have) are 0.
\<close>

theorem PushClose_monotone_from_2:
  assumes "d1 < d2" and "d2 \<le> 7"
  shows "((PushClose ! d2 \<le> PushClose ! d1) = (2 \<le> d1 \<or> d2 \<le> 1))
       \<and> (2 \<le> d1 \<longrightarrow> PushClose ! d2 < PushClose ! d1)"
proof -
  from assms have c1: "d1 \<le> 7" by simp
  show ?thesis
    using upto7_cases [OF c1] upto7_cases [OF assms(2)] assms(1)
    by (elim disjE) (simp_all add: PushClose_nth)
qed

theorem PushClose_monotone_from_2_witness:
  "(3::nat) < 5 \<and> (5::nat) \<le> 7 \<and> PushClose ! 5 \<le> PushClose ! 3 \<and> PushClose ! 5 < PushClose ! 3"
  using PushClose_monotone_from_2 [of 3 5] by simp

section \<open>The square normalizer is an involution\<close>

lemma mirror_sq_invol: "mirror_sq (mirror_sq s) = s"
  unfolding mirror_sq_def by (simp add: xor.assoc)

lemma flip_sq_invol: "flip_sq (flip_sq s) = s"
  unfolding flip_sq_def by (simp add: xor.assoc)

lemma mirror_sq_neq: "mirror_sq s \<noteq> s"
  unfolding mirror_sq_def
  by (metis xor.left_neutral xor_self_eq xor.assoc zero_neq_numeral)

lemma flip_sq_neq: "flip_sq s \<noteq> s"
  unfolding flip_sq_def SQ_A8_def
  by (metis xor.left_neutral xor_self_eq xor.assoc zero_neq_numeral)

lemma normalize_ok:
  "count pos PAWN c = 1 \<Longrightarrow> normalize pos c sq = Inr (normalize_sq pos c sq)"
  by (simp add: normalize_def)

lemma normalize_sq_ok: "is_ok s \<Longrightarrow> is_ok (normalize_sq pos c s)"
  unfolding normalize_sq_def by (simp add: Let_def mirror_ok flip_ok)

lemma normalize_sq_invol: "normalize_sq pos c (normalize_sq pos c sq) = sq"
  unfolding normalize_sq_def Let_def mirror_sq_def flip_sq_def
  by (simp add: xor.assoc xor.left_commute)

text \<open>
  Claim C6, as stated: file mirroring and colour flip are each idempotent and
  self-inverse. A function that is both is the identity; the two transforms are not
  idempotent: mirroring a1 twice gives a1, mirroring it once gives h1, and flipping a1
  twice gives a1, flipping it once gives a8.
\<close>

theorem transforms_not_idempotent:
  "\<not> (mirror_sq (mirror_sq 0) = mirror_sq 0) \<and> \<not> (flip_sq (flip_sq 0) = flip_sq 0)"
  by (simp add: mirror_sq_def flip_sq_def SQ_A8_def)

text \<open>
  Claim C6, amended: file mirroring and colour flip are each self-inverse (applied twice
  they give the square back) and on no square idempotent, and \<open>normalize\<close>, called on
  its own result with the same position and strong side, returns the original square,
  whenever the strong side has exactly one pawn (the assertion of \<open>normalize\<close>).
\<close>

theorem normalize_involution:
  assumes "count pos PAWN strongSide = 1"
  shows "mirror_sq (mirror_sq sq) = sq \<and> flip_sq (flip_sq sq) = sq
       \<and> mirror_sq (mirror_sq sq) \<noteq> mirror_sq sq \<and> flip_sq (flip_sq sq) \<noteq> flip_sq sq
       \<and> bind_r (normalize pos strongSide sq) (normalize pos strongSide) = Inr sq"
  using assms
  by (simp add: mirror_sq_invol flip_sq_invol mirror_sq_neq [symmetric] flip_sq_neq [symmetric]
      normalize_ok normalize_sq_invol)

text \<open>
  Witness for C6: in the position with the white pawn on e5 the squares are mirrored;
  e2 goes to d2 and d2 back to e2.
\<close>

theorem normalize_involution_witness:
  "normalize pos_KPK WHITE 12 = Inr 11 \<and> normalize pos_KPK WHITE 11 = Inr 12
   \<and> bind_r (normalize pos_KPK WHITE 12) (normalize pos_KPK WHITE) = Inr 12"
proof -
  have h: "count pos_KPK PAWN WHITE = 1" by code_simp
  have a: "normalize pos_KPK WHITE 12 = Inr 11" by code_simp
  have b: "normalize pos_KPK WHITE 11 = Inr 12" by code_simp
  from normalize_involution [OF h, of 12] a b show ?thesis by simp
qed

section \<open>Which endgame codes the key function rejects\<close>

lemma find_from_None: "(find_from ch p str = None) = (ch \<notin> set (drop p str))"
proof -
  have e: "(filter (\<lambda>i. str ! i = ch) [p..<length str] = []) = (ch \<notin> set (drop p str))"
    by (auto simp: filter_empty_conv in_set_conv_nth)
      (metis add.commute le_add1 less_diff_conv nat_le_iff_add add_diff_cancel_left' le_Suc_ex)
  show ?thesis
    unfolding find_from_def using e
    by (cases "filter (\<lambda>i. str ! i = ch) [p..<length str]") simp_all
qed

lemma find_from_Some: "find_from ch p str = Some i \<Longrightarrow> i < length str"
proof -
  assume "find_from ch p str = Some i"
  then obtain xs where "filter (\<lambda>i. str ! i = ch) [p..<length str] = i # xs"
    by (simp add: find_from_def split: list.splits)
  then have "i \<in> set (filter (\<lambda>i. str ! i = ch) [p..<length str])"
    by (metis list.set_intros(1))
  then show ?thesis by simp
qed

lemma key_fen_assert:
  "length code = 0 \<or> 8 \<le> length code \<or> code ! 0 \<noteq> CHR ''K''
   \<Longrightarrow> key_fen code c = Inl AssertionFailed"
  by (auto simp: key_fen_def)

lemma key_fen_oor:
  assumes "0 < length code" "length code < 8" "code ! 0 = CHR ''K''"
    "CHR ''K'' \<notin> set (drop 1 code)"
  shows "key_fen code c = Inl OutOfRange"
proof -
  have "find_from (CHR ''K'') 1 code = None"
    using assms(4) find_from_None [of "CHR ''K''" 1 code] by blast
  then show ?thesis using assms(1-3) by (simp add: key_fen_def substr_from_def bind_r_def)
qed

lemma key_fen_ok:
  assumes "0 < length code" "length code < 8" "code ! 0 = CHR ''K''"
    "CHR ''K'' \<in> set (drop 1 code)"
  shows "\<exists>fen. key_fen code c = Inr fen"
proof -
  have "find_from (CHR ''K'') 1 code \<noteq> None"
    using assms(4) find_from_None [of "CHR ''K''" 1 code] by blast
  then obtain i where i: "find_from (CHR ''K'') 1 code = Some i" by blast
  then have "i < length code" by (rule find_from_Some)
  then have "substr_from code (Some i) = Inr (drop i code)" by (simp add: substr_from_def)
  then show ?thesis
    using assms(1-3) i by (simp add: key_fen_def Let_def)
qed

lemma key_of_fen:
  "(key e code c = Inl err) = (key_fen code c = Inl err)"
  "(\<exists>k. key e code c = Inr k) = (\<exists>fen. key_fen code c = Inr fen)"
  by (cases "key_fen code c"; simp add: key_def bind_r_def)+

text \<open>
  Claim C8, as stated: a code that misses a second \<open>K\<close>, has an empty side or has length
  8 or more fails by an assertion, and the failure is reached for exactly these codes.
  It fails three ways. The code \<open>KQ\<close> misses the second \<open>K\<close> and fails, but no assertion
  guards that: \<open>substr\<close> throws \<open>std::out_of_range\<close>. The code \<open>QKK\<close> has a \<open>K\<close> after
  the first character, two non-empty sides and length 3, and fails the assertion on the
  first character. The registered code \<open>KPK\<close> has a weak side with no piece but the king,
  and gives a key.
\<close>

theorem key_claimed_failures_counterexample:
  "find_from (CHR ''K'') 1 ''KQ'' = None
   \<and> key example_engine ''KQ'' WHITE = Inl OutOfRange
   \<and> key example_engine ''KQ'' WHITE \<noteq> Inl AssertionFailed
   \<and> find_from (CHR ''K'') 1 ''QKK'' = Some 1
   \<and> length ''QKK'' < 8
   \<and> key example_engine ''QKK'' WHITE = Inl AssertionFailed
   \<and> (KPK, ''KPK'') \<in> set registered
   \<and> substr_from ''KPK'' (find_from (CHR ''K'') 1 ''KPK'') = Inr ''K''
   \<and> key_fen ''KPK'' WHITE = Inr ''k7/8/8/8/8/8/8/KP6 w - - 0 10''"
  by code_simp

text \<open>
  Claim C8, amended: \<open>key\<close> fails an assertion exactly when the code is empty, has
  length 8 or more, or does not start with \<open>K\<close>; it ends with \<open>std::out_of_range\<close>
  (no assertion) exactly when the code passes the assertions and has no \<open>K\<close> after its
  first character; it returns a key in every other case. No side is checked for
  pieces. Every code of the registration table gives a key for both colours, and the
  construction of the registry ends without a failure.
\<close>

theorem key_fails_iff:
  "((key e code c = Inl AssertionFailed)
      = (length code = 0 \<or> 8 \<le> length code \<or> code ! 0 \<noteq> CHR ''K''))
   \<and> ((key e code c = Inl OutOfRange)
      = (0 < length code \<and> length code < 8 \<and> code ! 0 = CHR ''K''
         \<and> CHR ''K'' \<notin> set (drop 1 code)))
   \<and> ((\<exists>k. key e code c = Inr k)
      = (0 < length code \<and> length code < 8 \<and> code ! 0 = CHR ''K''
         \<and> CHR ''K'' \<in> set (drop 1 code)))
   \<and> (\<forall>(E, rc) \<in> set registered. \<exists>k. key e rc c = Inr k)
   \<and> (\<exists>eg. Endgames_init e = Inr eg)"
proof -
  consider (A) "length code = 0 \<or> 8 \<le> length code \<or> code ! 0 \<noteq> CHR ''K''"
    | (B) "0 < length code" "length code < 8" "code ! 0 = CHR ''K''"
          "CHR ''K'' \<notin> set (drop 1 code)"
    | (C) "0 < length code" "length code < 8" "code ! 0 = CHR ''K''"
          "CHR ''K'' \<in> set (drop 1 code)"
    by fastforce
  then have abc: "((key_fen code c = Inl AssertionFailed)
      = (length code = 0 \<or> 8 \<le> length code \<or> code ! 0 \<noteq> CHR ''K''))
   \<and> ((key_fen code c = Inl OutOfRange)
      = (0 < length code \<and> length code < 8 \<and> code ! 0 = CHR ''K''
         \<and> CHR ''K'' \<notin> set (drop 1 code)))
   \<and> ((\<exists>fen. key_fen code c = Inr fen)
      = (0 < length code \<and> length code < 8 \<and> code ! 0 = CHR ''K''
         \<and> CHR ''K'' \<in> set (drop 1 code)))"
  proof cases
    case A
    have "key_fen code c = Inl AssertionFailed" using A by (rule key_fen_assert)
    then show ?thesis using A by auto
  next
    case B
    have "key_fen code c = Inl OutOfRange" using B by (rule key_fen_oor)
    then show ?thesis using B by auto
  next
    case C
    have "\<exists>fen. key_fen code c = Inr fen" using C by (rule key_fen_ok)
    then show ?thesis using C by auto
  qed
  have ok: "\<exists>k. key e rc c' = Inr k" if "(E, rc) \<in> set registered" for E rc c'
  proof -
    have "0 < length rc \<and> length rc < 8 \<and> rc ! 0 = CHR ''K'' \<and> CHR ''K'' \<in> set (drop 1 rc)"
      using that by (auto simp: registered_def)
    then have "\<exists>fen. key_fen rc c' = Inr fen" by (intro key_fen_ok) simp_all
    then show ?thesis by (simp only: key_of_fen)
  qed
  have "\<exists>eg'. add_all e xs eg = Inr eg'" if "set xs \<subseteq> set registered" for xs eg
    using that
  proof (induction xs arbitrary: eg)
    case Nil
    then show ?case by simp
  next
    case (Cons x xs)
    obtain E rc where x: "x = (E, rc)" by (cases x)
    with Cons.prems have m: "(E, rc) \<in> set registered" by simp
    obtain kw kb where "key e rc WHITE = Inr kw" "key e rc BLACK = Inr kb"
      using ok [OF m] by blast
    then have "\<exists>eg1. add e E rc eg = Inr eg1" by (simp add: add_def)
    then obtain eg1 where "add e E rc eg = Inr eg1" by blast
    moreover have "\<exists>eg'. add_all e xs eg1 = Inr eg'" using Cons by simp
    ultimately show ?case using x by simp
  qed
  then have i: "\<exists>eg. Endgames_init e = Inr eg" by (simp add: Endgames_init_def)
  have r: "\<forall>(E, rc) \<in> set registered. \<exists>k. key e rc c = Inr k" using ok by blast
  show ?thesis using abc r i by (simp only: key_of_fen simp_thms)
qed

text \<open>
  Witness for C8: a registered code gives a key (the forged FEN of \<open>KBPKN\<close> with white
  as the strong side is shown), a code of length 8 fails the assertion, and the code
  \<open>K\<close> ends with the exception.
\<close>

theorem key_fails_iff_witness:
  "key example_engine ''KRPPKRP'' BLACK = Inr 0
   \<and> key_fen ''KBPKN'' WHITE = Inr ''kn6/8/8/8/8/8/8/KBP5 w - - 0 10''
   \<and> key example_engine ''KQQQKQQQ'' WHITE = Inl AssertionFailed
   \<and> key example_engine ''K'' WHITE = Inl OutOfRange"
proof -
  have "(KRPPKRP, ''KRPPKRP'') \<in> set registered" by (simp add: registered_def)
  then have "\<exists>k. key example_engine ''KRPPKRP'' BLACK = Inr k"
    using key_fails_iff [of example_engine "''KRPPKRP''" BLACK] by blast
  moreover have "\<And>k. key example_engine ''KRPPKRP'' BLACK = Inr k \<Longrightarrow> k = 0"
    by (auto simp: key_def bind_r_def example_engine_def split: sum.splits)
  ultimately have a: "key example_engine ''KRPPKRP'' BLACK = Inr 0" by blast
  have c: "key_fen ''KBPKN'' WHITE = Inr ''kn6/8/8/8/8/8/8/KBP5 w - - 0 10''" by code_simp
  have d: "key example_engine ''KQQQKQQQ'' WHITE = Inl AssertionFailed"
    using key_fails_iff [of example_engine "''KQQQKQQQ''" WHITE] by simp
  have f: "key example_engine ''K'' WHITE = Inl OutOfRange"
    using key_fails_iff [of example_engine "''K''" WHITE] by simp
  show ?thesis using a c d f by simp
qed

section \<open>Mate with KX vs K\<close>

text \<open>The value of the evaluator when neither draw test fires.\<close>

lemma KXK_value:
  assumes "verify_material pos (flip_color s) VALUE_ZERO 0" "checkersBB pos = 0"
    "\<not> KXK_stalemate s pos" "\<not> KXK_bishops_draw s pos"
  shows "Endgame_KXK e s pos =
     Inr ((if s = side_to_move pos then 1 else - 1) *
          (KXK_base e s pos +
           (if count pos BISHOP s = 1 \<and> count pos KNIGHT s = 1
            then PushToCorners ! nat (if opposite_colors (square pos BISHOP s) SQ_A1
                                      then flip_sq (square pos KING (flip_color s))
                                      else square pos KING (flip_color s))
            else 0)))"
  using assms by (simp add: Endgame_KXK_def Let_def)

text \<open>
  Claim C4: in a KXK position (the weak side has the lone king) where the strong side
  has two or more bishops, all on squares of one colour, and no pawn, knight, rook or
  queen, the evaluator returns \<open>VALUE_DRAW\<close>. Nothing is assumed of the two kings: the
  draw is returned before any table is read, also for kings where no table has an entry.
\<close>

theorem KXK_same_colored_bishops_draw:
  assumes "verify_material pos (flip_color s) VALUE_ZERO 0" and "checkersBB pos = 0"
    and "2 \<le> count pos BISHOP s"
    and "(\<forall>sq\<in>set (pieceList pos s BISHOP). bb_has DarkSquares sq)
         \<or> (\<forall>sq\<in>set (pieceList pos s BISHOP). \<not> bb_has DarkSquares sq)"
    and "count pos PAWN s = 0" and "count pos KNIGHT s = 0"
    and "count pos ROOK s = 0" and "count pos QUEEN s = 0"
  shows "Endgame_KXK e s pos = Inr (VALUE_DRAW e)"
proof -
  have "pieces_cp pos s BISHOP AND NOT DarkSquares = 0
        \<or> pieces_cp pos s BISHOP AND DarkSquares = 0"
    using assms(4) bb_of_all_in [of "pieceList pos s BISHOP" DarkSquares]
      bb_of_all_out [of "pieceList pos s BISHOP" DarkSquares]
    unfolding pieces_cp_def by blast
  then have "KXK_bishops_draw s pos"
    using assms(3,5-8) by (auto simp: KXK_bishops_draw_def)
  then show ?thesis
    using assms(1,2) by (simp add: Endgame_KXK_def Let_def)
qed

text \<open>Witness for C4: white bishops on c1 and e3, both dark squares.\<close>

theorem KXK_same_colored_bishops_draw_witness:
  "2 \<le> count pos_KBBK BISHOP WHITE
   \<and> Endgame_KXK example_engine WHITE pos_KBBK = Inr (VALUE_DRAW example_engine)"
proof -
  have h1: "verify_material pos_KBBK (flip_color WHITE) VALUE_ZERO 0" by code_simp
  have h2: "checkersBB pos_KBBK = 0" by code_simp
  have h3: "2 \<le> count pos_KBBK BISHOP WHITE" by code_simp
  have h4: "(\<forall>sq\<in>set (pieceList pos_KBBK WHITE BISHOP). bb_has DarkSquares sq)
         \<or> (\<forall>sq\<in>set (pieceList pos_KBBK WHITE BISHOP). \<not> bb_has DarkSquares sq)"
    by code_simp
  have h5: "count pos_KBBK PAWN WHITE = 0" "count pos_KBBK KNIGHT WHITE = 0"
    "count pos_KBBK ROOK WHITE = 0" "count pos_KBBK QUEEN WHITE = 0" by code_simp+
  show ?thesis
    using h3 KXK_same_colored_bishops_draw [OF h1 h2 h3 h4 h5, of example_engine] by simp
qed

text \<open>
  Claim C10: when neither draw test of the KXK evaluator fires, the magnitude of the
  returned value is above \<open>VALUE_KNOWN_WIN\<close>, for kings anywhere on the board and any
  non-pawn material that is not negative, and the value is positive exactly when the
  strong side is to move. The edge table gives at least 80 and the corner table at
  least -50 at the square of the lone king. (\<open>VALUE_KNOWN_WIN\<close> is a constant of the
  engine's headers; that it is not negative is assumed.)
\<close>

theorem KXK_win_magnitude:
  assumes "verify_material pos (flip_color s) VALUE_ZERO 0" and "checkersBB pos = 0"
    and "\<not> KXK_stalemate s pos" and "\<not> KXK_bishops_draw s pos"
    and "is_ok (square pos KING s)" and "is_ok (square pos KING (flip_color s))"
    and "0 \<le> non_pawn_material pos s" and "0 \<le> VALUE_KNOWN_WIN e"
  shows "\<exists>v. Endgame_KXK e s pos = Inr v \<and> \<bar>v\<bar> > VALUE_KNOWN_WIN e
           \<and> (0 < v) = (s = side_to_move pos)
           \<and> 80 \<le> PushToEdges ! nat (square pos KING (flip_color s))
           \<and> - 50 \<le> PushToCorners ! nat (square pos KING (flip_color s))"
proof -
  let ?l = "square pos KING (flip_color s)"
  let ?c = "(if count pos BISHOP s = 1 \<and> count pos KNIGHT s = 1
            then PushToCorners ! nat (if opposite_colors (square pos BISHOP s) SQ_A1
                                      then flip_sq ?l else ?l)
            else 0)"
  let ?m = "KXK_base e s pos + ?c"
  have base: "KXK_base e s pos = VALUE_KNOWN_WIN e + tdiv (non_pawn_material pos s) 10
      + PushToEdges ! nat ?l + PushClose ! nat (distance (square pos KING s) ?l)"
    by (simp add: KXK_base_def Let_def)
  have d: "0 \<le> distance (square pos KING s) ?l \<and> distance (square pos KING s) ?l \<le> 7"
    using assms distance_range by simp
  have pc: "0 \<le> PushClose ! nat (distance (square pos KING s) ?l)"
    using d PushClose_ge by simp
  have npm: "0 \<le> tdiv (non_pawn_material pos s) 10" using assms tdiv_nonneg by simp
  have "30 \<le> PushToEdges ! nat ?l + ?c"
    using corner_sum [OF assms(6)] corner_sum_flip [OF assms(6)] PushToEdges_ge [OF assms(6)]
    by auto
  then have m: "VALUE_KNOWN_WIN e + 30 \<le> ?m" using base pc npm by linarith
  have v: "Endgame_KXK e s pos = Inr ((if s = side_to_move pos then 1 else - 1) * ?m)"
    using KXK_value [OF assms(1-4)] .
  show ?thesis
    using v m assms(8) PushToEdges_ge [OF assms(6)] PushToCorners_ge [OF assms(6)]
    by (cases "s = side_to_move pos") auto
qed

text \<open>Witness for C10: king, bishop and knight against the king on a8, white to move.\<close>

theorem KXK_win_magnitude_witness:
  "\<exists>v. Endgame_KXK example_engine WHITE pos_KBNK_dark = Inr v
        \<and> \<bar>v\<bar> > VALUE_KNOWN_WIN example_engine
           \<and> (0 < v) = (WHITE = side_to_move pos_KBNK_dark)
           \<and> 80 \<le> PushToEdges ! nat (square pos_KBNK_dark KING (flip_color WHITE))
           \<and> - 50 \<le> PushToCorners ! nat (square pos_KBNK_dark KING (flip_color WHITE))"
proof -
  have h1: "verify_material pos_KBNK_dark (flip_color WHITE) VALUE_ZERO 0" by code_simp
  have h2: "checkersBB pos_KBNK_dark = 0" by code_simp
  have h3: "\<not> KXK_stalemate WHITE pos_KBNK_dark" by code_simp
  have h4: "\<not> KXK_bishops_draw WHITE pos_KBNK_dark" by code_simp
  have h5: "is_ok (square pos_KBNK_dark KING WHITE)" by code_simp
  have h6: "is_ok (square pos_KBNK_dark KING (flip_color WHITE))" by code_simp
  have h7: "0 \<le> non_pawn_material pos_KBNK_dark WHITE" by code_simp
  have h8: "0 \<le> VALUE_KNOWN_WIN example_engine" by code_simp
  show ?thesis by (rule KXK_win_magnitude [OF h1 h2 h3 h4 h5 h6 h7 h8])
qed

text \<open>
  Claim C3, as stated: the corner term is added exactly when the strong side has one
  bishop and one knight, and the king squares are flipped precisely when the bishop
  stands on a dark square. With the white bishop on c1, a dark square, and the lone king
  on a8 the evaluator adds the entry of a8 itself (100), not that of the flipped square
  a1 (800): it does not flip.
\<close>

theorem KXK_no_flip_on_dark_bishop:
  "bb_has DarkSquares (square pos_KBNK_dark BISHOP WHITE)
   \<and> count pos_KBNK_dark BISHOP WHITE = 1 \<and> count pos_KBNK_dark KNIGHT WHITE = 1
   \<and> square pos_KBNK_dark KING BLACK = 56 \<and> flip_sq 56 = 0
   \<and> KXK_base example_engine WHITE pos_KBNK_dark = 10717
   \<and> PushToCorners ! nat 56 = 100 \<and> PushToCorners ! nat 0 = 800
   \<and> Endgame_KXK example_engine WHITE pos_KBNK_dark = Inr (10717 + 100)
   \<and> Endgame_KXK example_engine WHITE pos_KBNK_dark \<noteq> Inr (10717 + 800)"
  by code_simp

text \<open>
  Claim C3, amended: when neither draw test fires, the corner term is added to the
  result exactly when the strong side has exactly one bishop and exactly one knight; it
  is read at the square of the lone king when the bishop stands on a dark square, and at
  that square flipped when the bishop stands on a light square (a square of the colour
  opposite to a1). The flip keeps the file and exchanges rank \<open>r\<close> with rank \<open>7 - r\<close>.
\<close>

theorem KXK_corner_term:
  assumes "verify_material pos (flip_color s) VALUE_ZERO 0" and "checkersBB pos = 0"
    and "\<not> KXK_stalemate s pos" and "\<not> KXK_bishops_draw s pos" and "pos_ok pos"
  shows "Endgame_KXK e s pos =
     Inr ((if s = side_to_move pos then 1 else - 1) *
          (KXK_base e s pos +
           (if count pos BISHOP s = 1 \<and> count pos KNIGHT s = 1
            then PushToCorners ! nat (if bb_has DarkSquares (square pos BISHOP s)
                                      then square pos KING (flip_color s)
                                      else flip_sq (square pos KING (flip_color s)))
            else 0)))
     \<and> file_of (flip_sq (square pos KING (flip_color s)))
         = file_of (square pos KING (flip_color s))
     \<and> rank_of (flip_sq (square pos KING (flip_color s)))
         = 7 - rank_of (square pos KING (flip_color s))"
proof -
  have d: "bb_has DarkSquares (square pos BISHOP s)
           = (\<not> opposite_colors (square pos BISHOP s) SQ_A1)"
    if "count pos BISHOP s = 1"
    using that pos_ok_square [OF assms(5), of BISHOP s] dark_iff by simp
  show ?thesis
    using KXK_value [OF assms(1-4), of e] d
      flip_sq_file_rank [OF pos_ok_king [OF assms(5)], of "flip_color s"]
    by auto
qed

text \<open>
  Witness for C3: with the bishop on f1, a light square, the entry of the flipped
  square a1 is added: 10717 + 800.
\<close>

theorem KXK_corner_term_witness:
  "\<not> bb_has DarkSquares (square pos_KBNK_light BISHOP WHITE)
   \<and> flip_sq (square pos_KBNK_light KING BLACK) = 0
   \<and> Endgame_KXK example_engine WHITE pos_KBNK_light = Inr 11517"
proof -
  have h1: "verify_material pos_KBNK_light (flip_color WHITE) VALUE_ZERO 0" by code_simp
  have h2: "checkersBB pos_KBNK_light = 0" by code_simp
  have h3: "\<not> KXK_stalemate WHITE pos_KBNK_light" by code_simp
  have h4: "\<not> KXK_bishops_draw WHITE pos_KBNK_light" by code_simp
  have h5: "pos_ok pos_KBNK_light" by code_simp
  have a: "\<not> bb_has DarkSquares (square pos_KBNK_light BISHOP WHITE)" by code_simp
  have b: "flip_sq (square pos_KBNK_light KING BLACK) = 0" by code_simp
  have c: "count pos_KBNK_light BISHOP WHITE = 1 \<and> count pos_KBNK_light KNIGHT WHITE = 1
           \<and> WHITE = side_to_move pos_KBNK_light" by code_simp
  have k: "KXK_base example_engine WHITE pos_KBNK_light + PushToCorners ! nat 0 = 11517"
    by code_simp
  from KXK_corner_term [OF h1 h2 h3 h4 h5, of example_engine]
  have "Endgame_KXK example_engine WHITE pos_KBNK_light = Inr 11517"
    using a b c k by simp
  then show ?thesis using a b by simp
qed

section \<open>KP vs K\<close>





section \<open>KRPP vs KRP: the index of the scale table\<close>

lemma pawns_legal_nth:
  assumes "pawns_legal s pos" "i < length (pieceList pos s PAWN)"
  shows "RANK_2 \<le> relative_rank s (squares pos PAWN s i)
       \<and> relative_rank s (squares pos PAWN s i) \<le> RANK_7
       \<and> (relative_rank s (squares pos PAWN s i) = RANK_7
            \<longrightarrow> pawnPassed pos s (squares pos PAWN s i))"
proof -
  have "pieceList pos s PAWN ! i \<in> set (pieceList pos s PAWN)" using assms(2) by (rule nth_mem)
  then show ?thesis using assms by (simp add: pawns_legal_def list_all_iff squares_def)
qed

lemma KRPPKRP_r_bounds:
  assumes "count pos PAWN s = 2" "pawns_legal s pos" "KRPPKRP_lookup s pos"
  shows "RANK_1 < KRPPKRP_r s pos \<and> KRPPKRP_r s pos < RANK_7"
proof -
  have len: "0 < length (pieceList pos s PAWN)" "1 < length (pieceList pos s PAWN)"
    using assms(1) by (simp_all add: count_def)
  note a = pawns_legal_nth [OF assms(2) len(1)] and b = pawns_legal_nth [OF assms(2) len(2)]
  have np: "\<not> pawnPassed pos s (squares pos PAWN s 0)"
    "\<not> pawnPassed pos s (squares pos PAWN s 1)"
    using assms(3) by (simp_all add: KRPPKRP_lookup_def Let_def)
  have "relative_rank s (squares pos PAWN s 0) \<noteq> RANK_7" using a np by blast
  moreover have "relative_rank s (squares pos PAWN s 1) \<noteq> RANK_7" using b np by blast
  ultimately show ?thesis
    using a b by (simp add: KRPPKRP_r_def Let_def RANK_1_def RANK_2_def RANK_7_def max_def)
qed

lemma KRPPKRPScaleFactors_nth:
  assumes "RANK_1 < r" "r < RANK_7"
  shows "KRPPKRPScaleFactors ! nat r \<in> {9, 10, 14, 21, 44}"
proof -
  have "r = 1 \<or> r = 2 \<or> r = 3 \<or> r = 4 \<or> r = 5"
    using assms by (simp add: RANK_1_def RANK_7_def) arith
  then show ?thesis by (elim disjE) (simp_all add: KRPPKRPScaleFactors_def)
qed

text \<open>
  Claim C9: in the KRPPKRP evaluator, when all strong pawns stand on relative ranks 2 to
  7 and a pawn on relative rank 7 is passed, then whenever the branch with the table
  look-up is reached (no strong pawn passed, the defending king within one file of both
  pawns and on a higher relative rank than both), the rank \<open>r\<close> satisfies
  \<open>RANK_1 < r < RANK_7\<close>: the assertion holds, the index is inside the table and the
  factor returned is one of 9, 10, 14, 21, 44.
\<close>

theorem KRPPKRP_lookup_in_bounds:
  assumes "material_pre e KRPPKRP s pos" and "pawns_legal s pos" and "KRPPKRP_lookup s pos"
  shows "RANK_1 < KRPPKRP_r s pos \<and> KRPPKRP_r s pos < RANK_7
       \<and> nat (KRPPKRP_r s pos) < length KRPPKRPScaleFactors
       \<and> Endgame_KRPPKRP e s pos = Inr (KRPPKRPScaleFactors ! nat (KRPPKRP_r s pos))
       \<and> KRPPKRPScaleFactors ! nat (KRPPKRP_r s pos) \<in> {9, 10, 14, 21, 44}"
proof -
  have p1: "verify_material pos s (RookValueMg e) 2"
    and p2: "verify_material pos (flip_color s) (RookValueMg e) 1"
    using assms(1) by simp_all
  have cnt: "count pos PAWN s = 2" using p1 by (simp add: verify_material_def)
  note r = KRPPKRP_r_bounds [OF cnt assms(2,3)]
  have np: "\<not> (pawnPassed pos s (squares pos PAWN s 0)
                \<or> pawnPassed pos s (squares pos PAWN s 1))"
    using assms(3) by (simp add: KRPPKRP_lookup_def Let_def)
  have "length KRPPKRPScaleFactors = 8" by (simp add: KRPPKRPScaleFactors_def)
  then have len: "nat (KRPPKRP_r s pos) < length KRPPKRPScaleFactors"
    using r unfolding RANK_7_def by linarith
  have v: "Endgame_KRPPKRP e s pos = Inr (KRPPKRPScaleFactors ! nat (KRPPKRP_r s pos))"
    unfolding Endgame_KRPPKRP_def Let_def
    by (simp only: p1 p2 np assms(3) r if_False if_True simp_thms)
  show ?thesis using r len v KRPPKRPScaleFactors_nth [of "KRPPKRP_r s pos"] by simp
qed

text \<open>
  Witness for C9: white pawns on e4 and f4, none passed, the black king on e6; \<open>r\<close> is
  the rank index 3 and the factor is 14.
\<close>

theorem KRPPKRP_lookup_in_bounds_witness:
  "KRPPKRP_lookup WHITE pos_KRPPKRP \<and> KRPPKRP_r WHITE pos_KRPPKRP = 3
   \<and> Endgame_KRPPKRP example_engine WHITE pos_KRPPKRP = Inr 14"
proof -
  have h1: "material_pre example_engine KRPPKRP WHITE pos_KRPPKRP" by code_simp
  have h2: "pawns_legal WHITE pos_KRPPKRP" by code_simp
  have h3: "KRPPKRP_lookup WHITE pos_KRPPKRP" by code_simp
  have r: "KRPPKRP_r WHITE pos_KRPPKRP = 3" by code_simp
  have t: "KRPPKRPScaleFactors ! nat 3 = 14" by code_simp
  from KRPPKRP_lookup_in_bounds [OF h1 h2 h3, of ] r t
  have "Endgame_KRPPKRP example_engine WHITE pos_KRPPKRP = Inr 14" by simp
  then show ?thesis using h3 r by simp
qed

section \<open>KQ vs KR and pawns: the scale after the fortress test\<close>

text \<open>
  What the evaluator returns when the fortress pattern does not match. From 15 to 272
  plies on the fifty-move counter the integer quotient \<open>(101 - rule50) / 172\<close> is 0, and
  so is the scale factor.
\<close>

lemma KQKRPs_value:
  assumes "material_pre e KQKRPs s pos" and "\<not> KQKRPs_fortress e s pos"
  shows "Endgame_KQKRPs e s pos =
           Inr (if rule50_count pos \<le> 14 then SCALE_FACTOR_NONE e
                else SCALE_FACTOR_NORMAL e * tdiv (101 - rule50_count pos) 172)"
    and "15 \<le> rule50_count pos \<Longrightarrow> rule50_count pos \<le> 272 \<Longrightarrow> Endgame_KQKRPs e s pos = Inr 0"
proof -
  show v: "Endgame_KQKRPs e s pos =
           Inr (if rule50_count pos \<le> 14 then SCALE_FACTOR_NONE e
                else SCALE_FACTOR_NORMAL e * tdiv (101 - rule50_count pos) 172)"
    using assms by (simp add: Endgame_KQKRPs_def Let_def)
  assume "15 \<le> rule50_count pos" "rule50_count pos \<le> 272"
  then have "tdiv (101 - rule50_count pos) 172 = 0 \<and> \<not> rule50_count pos \<le> 14"
    using tdiv_small [of "101 - rule50_count pos"] by simp
  then show "Endgame_KQKRPs e s pos = Inr 0" using v by simp
qed

text \<open>
  Claim C2: when the fortress pattern does not match, the KQKRPs evaluator returns
  \<open>SCALE_FACTOR_NONE\<close> up to 14 plies on the fifty-move counter and beyond that a scale
  factor that decreases linearly with the counter. The code at the counter values 14,
  15, 16, 50 and 100, in a position whose pawn is outside the fortress mask: no scaling
  at 14, and the same factor 0, the draw factor, at all the others. The quotient
  \<open>(101 - rule50) / 172\<close> is taken in integers before the conversion to \<open>double\<close>.
\<close>

theorem KQKRPs_scale_not_linear:
  "\<not> KQKRPs_fortress example_engine WHITE (pos_KQKRPs 15)
   \<and> Endgame_KQKRPs example_engine WHITE (pos_KQKRPs 14) = Inr 255
   \<and> Endgame_KQKRPs example_engine WHITE (pos_KQKRPs 15) = Inr 0
   \<and> Endgame_KQKRPs example_engine WHITE (pos_KQKRPs 16) = Inr 0
   \<and> Endgame_KQKRPs example_engine WHITE (pos_KQKRPs 50) = Inr 0
   \<and> Endgame_KQKRPs example_engine WHITE (pos_KQKRPs 100) = Inr 0
   \<and> tdiv (101 - 15) 172 = 0
   \<and> SCALE_FACTOR_DRAW example_engine = 0"
  by code_simp

section \<open>The range of the scale factors\<close>

lemma in_range_simps [simp]:
  "in_range e (Inl x) = False"
  "in_range e (Inr v) = (0 \<le> v \<and> v \<le> SCALE_FACTOR_NONE e)"
  by (simp_all add: in_range_def)

lemma r_if: "in_range e a \<Longrightarrow> in_range e b \<Longrightarrow> in_range e (if c then a else b)"
  by simp

lemma r_prod: "(\<And>x y. in_range e (f x y)) \<Longrightarrow> in_range e (case p of (x, y) \<Rightarrow> f x y)"
  by (cases p) simp

lemma r_draw: "scale_consts_ok e \<Longrightarrow> in_range e (Inr (SCALE_FACTOR_DRAW e))"
  by (simp add: scale_consts_ok_def)

lemma r_none: "scale_consts_ok e \<Longrightarrow> in_range e (Inr (SCALE_FACTOR_NONE e))"
  by (simp add: scale_consts_ok_def)

lemma in_range_KBPsK:
  assumes "material_pre e KBPsK s pos" "scale_consts_ok e"
  shows "in_range e (Endgame_KBPsK e s pos)"
proof -
  have p1: "non_pawn_material pos s = BishopValueMg e"
    and p2: "1 \<le> count pos PAWN s"
    using assms(1) by simp_all
  show ?thesis
  proof (cases "count pos PAWN s = 1")
    case True
    show ?thesis
      unfolding Endgame_KBPsK_def Let_def
      apply (simp only: p1 p2 if_False simp_thms normalize_ok [OF True]
          bind_r_Inr bind_r_if)
      apply (intro r_if r_prod r_draw [OF assms(2)] r_none [OF assms(2)])
      done
  next
    case False
    show ?thesis
      unfolding Endgame_KBPsK_def Let_def
      apply (simp only: p1 p2 False if_False simp_thms bind_r_Inr)
      apply (intro r_if r_prod r_draw [OF assms(2)] r_none [OF assms(2)])
      done
  qed
qed

lemma in_range_KQKRPs:
  assumes "material_pre e KQKRPs s pos" "scale_consts_ok e" "rule50_count pos \<le> 272"
  shows "in_range e (Endgame_KQKRPs e s pos)"
proof -
  have p1: "verify_material pos s (QueenValueMg e) 0"
    and p2: "count pos ROOK (flip_color s) = 1"
    and p3: "1 \<le> count pos PAWN (flip_color s)"
    using assms(1) by simp_all
  have "tdiv (101 - rule50_count pos) 172 = 0" if "14 < rule50_count pos"
    using that assms(3) by (intro tdiv_small) simp_all
  then have l: "in_range e (Inr (if 14 < rule50_count pos
      then SCALE_FACTOR_NORMAL e * tdiv (101 - rule50_count pos) 172
      else SCALE_FACTOR_NONE e))"
    using assms(2) by (simp add: scale_consts_ok_def)
  show ?thesis
    unfolding Endgame_KQKRPs_def Let_def
    apply (simp only: p1 p2 p3 if_False simp_thms)
    apply (intro r_if r_draw [OF assms(2)] l)
    done
qed

lemma in_range_KRPKR:
  assumes "material_pre e KRPKR s pos" "pos_ok pos" "scale_consts_ok e"
  shows "in_range e (Endgame_KRPKR e s pos)"
proof -
  have p1: "verify_material pos s (RookValueMg e) 1"
    and p2: "verify_material pos (flip_color s) (RookValueMg e) 0"
    using assms(1) by simp_all
  have cnt: "count pos PAWN s = 1" using p1 by (simp add: verify_material_def)
  let ?wk = "normalize_sq pos s (square pos KING s)"
  let ?bk = "normalize_sq pos s (square pos KING (flip_color s))"
  let ?wp = "normalize_sq pos s (square pos PAWN s)"
  let ?q = "make_square (file_of ?wp) RANK_8"
  have wk: "is_ok ?wk" and bk: "is_ok ?bk"
    using pos_ok_king [OF assms(2)] by (simp_all add: normalize_sq_ok)
  have wp: "is_ok ?wp"
    using pos_ok_square [OF assms(2), of PAWN s] cnt by (simp add: normalize_sq_ok)
  have q: "is_ok ?q" using file_of_range [of ?wp] by (simp add: make_square_ok)
  have d1: "0 \<le> distance ?wk ?q \<and> distance ?wk ?q \<le> 7" using wk q by (rule distance_range)
  have d2: "0 \<le> distance ?wp ?q \<and> distance ?wp ?q \<le> 7" using wp q by (rule distance_range)
  have d3: "0 \<le> distance ?wk ?bk \<and> distance ?wk ?bk \<le> 7" using wk bk by (rule distance_range)
  have c: "70 \<le> SCALE_FACTOR_MAX e" "SCALE_FACTOR_MAX e \<le> SCALE_FACTOR_NONE e"
    "48 \<le> SCALE_FACTOR_NONE e"
    using assms(3) by (simp_all add: scale_consts_ok_def)
  have l1: "in_range e (Inr (SCALE_FACTOR_MAX e - 2 * distance ?wk ?q))"
    using d1 c by simp
  have l2: "in_range e (Inr (SCALE_FACTOR_MAX e - 8 * distance ?wp ?q - 2 * distance ?wk ?q))"
    using d1 d2 c by simp
  have l3: "in_range e (Inr 10)" using c by simp
  have l4: "in_range e (Inr (24 - 2 * distance ?wk ?bk))" using d3 c by simp
  show ?thesis
    unfolding Endgame_KRPKR_def Let_def
    apply (simp only: p1 p2 not_True_eq_False if_False normalize_ok [OF cnt] bind_r_Inr)
    apply (intro r_if r_draw [OF assms(3)] r_none [OF assms(3)] l1 l2 l3 l4)
    done
qed

lemma in_range_KRPKB:
  assumes "material_pre e KRPKB s pos" "scale_consts_ok e"
  shows "in_range e (Endgame_KRPKB e s pos)"
  using assms by (simp add: Endgame_KRPKB_def Let_def scale_consts_ok_def)

lemma in_range_KRPPKRP:
  assumes "material_pre e KRPPKRP s pos" "pawns_legal s pos" "scale_consts_ok e"
  shows "in_range e (Endgame_KRPPKRP e s pos)"
proof (cases "KRPPKRP_lookup s pos")
  case True
  have p1: "verify_material pos s (RookValueMg e) 2"
    and p2: "verify_material pos (flip_color s) (RookValueMg e) 1"
    using assms(1) by simp_all
  have cnt: "count pos PAWN s = 2" using p1 by (simp add: verify_material_def)
  note r = KRPPKRP_r_bounds [OF cnt assms(2) True]
  have np: "\<not> (pawnPassed pos s (squares pos PAWN s 0)
                \<or> pawnPassed pos s (squares pos PAWN s 1))"
    using True by (simp add: KRPPKRP_lookup_def Let_def)
  have v: "Endgame_KRPPKRP e s pos = Inr (KRPPKRPScaleFactors ! nat (KRPPKRP_r s pos))"
    unfolding Endgame_KRPPKRP_def Let_def
    by (simp only: p1 p2 np True r if_False if_True simp_thms)
  have "48 \<le> SCALE_FACTOR_NONE e" using assms(3) by (simp add: scale_consts_ok_def)
  then show ?thesis using v KRPPKRPScaleFactors_nth [of "KRPPKRP_r s pos"] r by auto
next
  case False
  have p1: "verify_material pos s (RookValueMg e) 2"
    and p2: "verify_material pos (flip_color s) (RookValueMg e) 1"
    using assms(1) by simp_all
  show ?thesis
    unfolding Endgame_KRPPKRP_def Let_def
    apply (simp only: p1 p2 False if_False simp_thms)
    apply (intro r_if r_none [OF assms(3)])
    done
qed

lemma in_range_KPsK:
  assumes "material_pre e KPsK s pos" "scale_consts_ok e"
  shows "in_range e (Endgame_KPsK e s pos)"
  using assms by (simp add: Endgame_KPsK_def Let_def scale_consts_ok_def)

lemma in_range_KBPKB:
  assumes "material_pre e KBPKB s pos" "scale_consts_ok e"
  shows "in_range e (Endgame_KBPKB e s pos)"
  using assms by (simp add: Endgame_KBPKB_def Let_def scale_consts_ok_def)

lemma in_range_KBPPKB:
  assumes "material_pre e KBPPKB s pos" "scale_consts_ok e"
  shows "in_range e (Endgame_KBPPKB e s pos)"
proof -
  have p1: "verify_material pos s (BishopValueMg e) 2"
    and p2: "verify_material pos (flip_color s) (BishopValueMg e) 0"
    using assms(1) by simp_all
  show ?thesis
    unfolding Endgame_KBPPKB_def Let_def
    apply (simp only: p1 p2 not_True_eq_False if_False)
    apply (intro r_if r_prod r_draw [OF assms(2)] r_none [OF assms(2)])
    done
qed

lemma in_range_KBPKN:
  assumes "material_pre e KBPKN s pos" "scale_consts_ok e"
  shows "in_range e (Endgame_KBPKN e s pos)"
  using assms by (simp add: Endgame_KBPKN_def Let_def scale_consts_ok_def)

lemma in_range_KNPK:
  assumes "material_pre e KNPK s pos" "scale_consts_ok e"
  shows "in_range e (Endgame_KNPK e s pos)"
proof -
  have "count pos PAWN s = 1" using assms(1) by (simp add: verify_material_def)
  then show ?thesis
    using assms by (simp add: Endgame_KNPK_def Let_def scale_consts_ok_def normalize_ok)
qed

lemma in_range_KNPKB:
  assumes "pos_ok pos" "scale_consts_ok e"
  shows "in_range e (Endgame_KNPKB e s pos)"
proof -
  let ?k = "square pos KING (flip_color s)" and ?p = "square pos PAWN s"
  have "0 \<le> distance ?k ?p \<and> distance ?k ?p \<le> 8"
    unfolding square_def
    using squares_range [OF assms(1)] by (intro distance_range64) simp_all
  then have "in_range e (Inr (distance ?k ?p))"
    using assms(2) by (simp add: scale_consts_ok_def)
  then show ?thesis
    unfolding Endgame_KNPKB_def Let_def
    by (intro r_if r_none [OF assms(2)])
qed

text \<open>
  The ten scale evaluators other than KQKRPs return a scale factor from 0 to
  \<open>SCALE_FACTOR_NONE\<close> and fail no assertion, for every position that satisfies their
  material precondition; KRPKR and KNPKB read distances and need the squares on the
  board, and the assertion inside KRPPKRP needs the strong pawns on relative ranks 2 to
  7 and passed on rank 7. KQKRPs does so as long as the integer quotient
  \<open>(101 - rule50) / 172\<close> is not negative, which covers the counters 0 to 100 of a game
  under the fifty-move rule. (Of the constants of the engine's headers it is assumed that
  \<open>0 \<le> SCALE_FACTOR_DRAW \<le> SCALE_FACTOR_NONE\<close>,
  \<open>70 \<le> SCALE_FACTOR_MAX \<le> SCALE_FACTOR_NONE\<close> and \<open>48 \<le> SCALE_FACTOR_NONE\<close>.)
\<close>

lemma scale_factor_in_range:
  assumes "\<not> returns_value E" and "material_pre e E s pos" and "scale_consts_ok e"
    and "E = KRPKR \<or> E = KNPKB \<Longrightarrow> pos_ok pos"
    and "E = KRPPKRP \<Longrightarrow> pawns_legal s pos"
    and "E = KQKRPs \<Longrightarrow> rule50_count pos \<le> 272"
  shows "\<exists>v. Endgame_call e E s pos = Inr v \<and> 0 \<le> v \<and> v \<le> SCALE_FACTOR_NONE e"
proof -
  have "in_range e (Endgame_call e E s pos)"
  proof (cases E)
    case KBPsK then show ?thesis using assms in_range_KBPsK by simp
  next
    case KQKRPs then show ?thesis using assms in_range_KQKRPs by simp
  next
    case KRPKR then show ?thesis using assms in_range_KRPKR by simp
  next
    case KRPKB then show ?thesis using assms in_range_KRPKB by simp
  next
    case KRPPKRP then show ?thesis using assms in_range_KRPPKRP by simp
  next
    case KPsK then show ?thesis using assms in_range_KPsK by simp
  next
    case KBPKB then show ?thesis using assms in_range_KBPKB by simp
  next
    case KBPPKB then show ?thesis using assms in_range_KBPPKB by simp
  next
    case KBPKN then show ?thesis using assms in_range_KBPKN by simp
  next
    case KNPK then show ?thesis using assms in_range_KNPK by simp
  next
    case KNPKB then show ?thesis using assms in_range_KNPKB by simp
  qed (use assms(1) in \<open>simp_all add: returns_value_def\<close>)
  then show ?thesis by (cases "Endgame_call e E s pos") simp_all
qed

text \<open>
  Two runs inside the range: the KRPP vs KRP position with pawns on e4 and f4, and the
  queen against rook and pawn position with the counter at 100.
\<close>

lemma scale_factor_in_range_example:
  "(\<exists>v. Endgame_call example_engine KRPPKRP WHITE pos_KRPPKRP = Inr v
         \<and> 0 \<le> v \<and> v \<le> SCALE_FACTOR_NONE example_engine)
   \<and> (\<exists>v. Endgame_call example_engine KQKRPs WHITE (pos_KQKRPs 100) = Inr v
         \<and> 0 \<le> v \<and> v \<le> SCALE_FACTOR_NONE example_engine)"
proof -
  have c: "scale_consts_ok example_engine" by code_simp
  have a1: "\<not> returns_value KRPPKRP" by code_simp
  have a2: "material_pre example_engine KRPPKRP WHITE pos_KRPPKRP" by code_simp
  have a4: "pawns_legal WHITE pos_KRPPKRP" by code_simp
  have b1: "\<not> returns_value KQKRPs" by code_simp
  have b2: "material_pre example_engine KQKRPs WHITE (pos_KQKRPs 100)" by code_simp
  have b5: "rule50_count (pos_KQKRPs 100) \<le> 272" by code_simp
  have "\<exists>v. Endgame_call example_engine KRPPKRP WHITE pos_KRPPKRP = Inr v
         \<and> 0 \<le> v \<and> v \<le> SCALE_FACTOR_NONE example_engine"
    using a4 by (intro scale_factor_in_range [OF a1 a2 c]) simp_all
  moreover have "\<exists>v. Endgame_call example_engine KQKRPs WHITE (pos_KQKRPs 100) = Inr v
         \<and> 0 \<le> v \<and> v \<le> SCALE_FACTOR_NONE example_engine"
    using b5 by (intro scale_factor_in_range [OF b1 b2 c]) simp_all
  ultimately show ?thesis by blast
qed


end
